theory Spec2Isabelle
  imports Complex_Main "HOL-Library.Monad_Syntax"
begin

section \<open>Data model\<close>

text \<open>
  The TypeScript interfaces of the store module and of \<^verbatim>\<open>types/consultation\<close>, one record
  per interface. Several interfaces share field names (\<^verbatim>\<open>id\<close>, \<^verbatim>\<open>name\<close>,
  \<^verbatim>\<open>doctorId\<close>, ...), so the fields of each record carry a short prefix; \<^verbatim>\<open>TimeSlot\<close>
  and the application state keep the source's names. An optional field \<^verbatim>\<open>f?: T\<close> is a
  \<open>T option\<close>. A JavaScript \<^verbatim>\<open>number\<close> is only stored and copied by the code modelled
  here, never computed with, and is a rational; a \<^verbatim>\<open>Date\<close> is its time value, the
  milliseconds since the epoch.
\<close>

type_synonym number = rat
type_synonym Date = int

record Medicine =
  m_id :: string
  m_name :: string
  m_description :: string
  m_ingredients :: "string list"
  m_uses :: string
  m_sideEffects :: string
  m_dosage :: string
  m_warnings :: string
  m_timestamp :: number
  m_isFavorite :: "bool option"

datatype Frequency = Daily | Twice | Thrice | Custom

record Reminder =
  r_id :: string
  r_medicineName :: string
  r_time :: Date
  r_frequency :: Frequency
  r_notes :: "string option"
  r_enabled :: bool

text \<open>\<^verbatim>\<open>Partial<Reminder>\<close>: every field may be absent.\<close>

record ReminderUpdates =
  p_id :: "string option"
  p_medicineName :: "string option"
  p_time :: "Date option"
  p_frequency :: "Frequency option"
  p_notes :: "string option"
  p_enabled :: "bool option"

record Doctor =
  d_id :: string
  d_name :: string
  d_email :: string
  d_phone :: string
  d_specialization :: string
  d_experience :: number
  d_profileImage :: string
  d_qualifications :: "string list"
  d_rating :: number
  d_totalConsultations :: number
  d_consultationFee :: number
  d_languages :: "string list"
  d_verified :: bool
  d_createdAt :: "Date option"
  d_updatedAt :: "Date option"

record User =
  u_id :: string
  u_name :: string
  u_email :: string
  u_phone :: string
  u_profileImage :: "string option"
  u_dateOfBirth :: "Date option"
  u_gender :: "string option"
  u_bloodGroup :: "string option"
  u_allergies :: "string list option"
  u_medicalHistory :: "string list option"
  u_createdAt :: "Date option"
  u_fcmToken :: "string option"

record TimeSlot =
  startTime :: string
  endTime :: string
  isBooked :: bool
  consultationId :: "string option"

record DoctorAvailability =
  a_id :: string
  a_doctorId :: string
  a_date :: string
  slots :: "TimeSlot list option"
  a_createdAt :: "Date option"
  a_updatedAt :: "Date option"

datatype ConsultationStatus = Scheduled | Ongoing | Completed | Cancelled

record Consultation =
  c_id :: string
  c_patientId :: string
  c_patientName :: string
  c_doctorId :: string
  c_doctorName :: string
  c_doctorSpecialization :: string
  c_scheduledTime :: Date
  c_duration :: number
  c_status :: ConsultationStatus
  c_consultationFee :: number
  c_agoraChannelName :: string
  c_agoraToken :: "string option"
  c_symptoms :: "string option"
  c_notes :: "string option"
  c_doctorNotes :: "string option"
  c_prescriptionId :: "string option"
  c_createdAt :: "Date option"
  c_updatedAt :: "Date option"

datatype MessageType = Text | Image | PrescriptionMessage
datatype SenderType = Patient | DoctorSender

record ChatMessage =
  g_id :: string
  g_consultationId :: string
  g_senderId :: string
  g_senderName :: string
  g_senderType :: SenderType
  g_message :: string
  g_messageType :: MessageType
  g_imageUrl :: "string option"
  g_timestamp :: Date
  g_read :: bool

record Medication =
  k_name :: string
  k_dosage :: string
  k_frequency :: string
  k_duration :: string
  k_instructions :: string

record Prescription =
  x_id :: string
  x_consultationId :: string
  x_patientId :: string
  x_doctorId :: string
  x_doctorName :: string
  x_medications :: "Medication list"
  x_diagnosis :: string
  x_advice :: string
  x_followUpDate :: "Date option"
  x_prescriptionImageUrl :: "string option"
  x_createdAt :: "Date option"

record BookingData =
  b_doctorId :: string
  b_doctorName :: string
  b_doctorSpecialization :: string
  b_patientId :: string
  b_patientName :: string
  b_scheduledTime :: Date
  b_consultationFee :: number
  b_symptoms :: "string option"
  b_notes :: "string option"

section \<open>The application state cache\<close>

text \<open>
  The data fields of \<^verbatim>\<open>AppState\<close> (the zustand store); its methods are the functions
  below. \<^verbatim>\<open>get()\<close> reads the record and \<^verbatim>\<open>set({f: v})\<close> is a record update of the
  named fields.
\<close>

record AppState =
  isDarkMode :: bool
  searchHistory :: "Medicine list"
  favorites :: "Medicine list"
  reminders :: "Reminder list"
  isLoading :: bool
  currentUser :: "User option"
  doctors :: "Doctor list"
  consultations :: "Consultation list"
  activeConsultation :: "Consultation option"
  chatMessages :: "string \<rightharpoonup> ChatMessage list"
  prescriptions :: "Prescription list"

text \<open>
  \<^verbatim>\<open>AsyncStorage\<close> is the device's key-value store, a third-party module: a read of a key
  either rejects or resolves to the stored string or to \<^verbatim>\<open>null\<close>. Writes and removals
  are taken to succeed. \<^verbatim>\<open>JSON.stringify\<close> and \<^verbatim>\<open>JSON.parse\<close> are parameters, one
  function per type of value; a parser returns \<open>None\<close> where \<^verbatim>\<open>JSON.parse\<close> throws.
\<close>

datatype stored = Rejects | Resolves "string option"

type_synonym AsyncStorage = "string \<Rightarrow> stored"

definition setItem :: "string \<Rightarrow> string \<Rightarrow> AsyncStorage \<Rightarrow> AsyncStorage" where
  "setItem key v disk = disk(key := Resolves (Some v))"

definition removeItem :: "string \<Rightarrow> AsyncStorage \<Rightarrow> AsyncStorage" where
  "removeItem key disk = disk(key := Resolves None)"

definition getItem :: "AsyncStorage \<Rightarrow> string \<Rightarrow> string option option" where
  \<comment> \<open>\<open>None\<close>: the promise rejects; \<open>Some None\<close>: it resolves to \<^verbatim>\<open>null\<close>.\<close>
  "getItem disk key = (case disk key of Rejects \<Rightarrow> None | Resolves v \<Rightarrow> Some v)"

record JSON =
  stringify_medicines :: "Medicine list \<Rightarrow> string"
  stringify_reminders :: "Reminder list \<Rightarrow> string"
  parse_bool :: "string \<Rightarrow> bool option"
  parse_medicines :: "string \<Rightarrow> Medicine list option"
  parse_reminders :: "string \<Rightarrow> Reminder list option"
  parse_user :: "string \<Rightarrow> User option option"
  parse_doctors :: "string \<Rightarrow> Doctor list option"
  parse_consultations :: "string \<Rightarrow> Consultation list option"
  parse_prescriptions :: "string \<Rightarrow> Prescription list option"

record Store =
  state :: AppState
  asyncStorage :: AsyncStorage

text \<open>The initial value of the store: the literals at the head of \<^verbatim>\<open>create\<close>.\<close>

definition initialState :: AppState where
  "initialState = \<lparr>isDarkMode = False, searchHistory = [], favorites = [], reminders = [],
     isLoading = False, currentUser = None, doctors = [], consultations = [],
     activeConsultation = None, chatMessages = Map.empty, prescriptions = []\<rparr>"

text \<open>\<^verbatim>\<open>Array.prototype.findIndex\<close>; \<open>None\<close> stands for the result \<^verbatim>\<open>-1\<close>.\<close>

fun findIndex :: "('a \<Rightarrow> bool) \<Rightarrow> 'a list \<Rightarrow> nat option" where
  "findIndex P [] = None"
| "findIndex P (x # xs) = (if P x then Some 0 else map_option Suc (findIndex P xs))"

definition addToHistory :: "JSON \<Rightarrow> Medicine \<Rightarrow> Store \<Rightarrow> Store" where
  "addToHistory J medicine st =
     (let history = searchHistory (state st);
          filtered = filter (\<lambda>m. m_id m \<noteq> m_id medicine) history;
          newHistory = take 50 (medicine # filtered)
      in \<lparr>state = (state st)\<lparr>searchHistory := newHistory\<rparr>,
          asyncStorage = setItem ''searchHistory'' (stringify_medicines J newHistory)
                           (asyncStorage st)\<rparr>)"

definition clearHistory :: "Store \<Rightarrow> Store" where
  "clearHistory st =
     \<lparr>state = (state st)\<lparr>searchHistory := []\<rparr>,
      asyncStorage = removeItem ''searchHistory'' (asyncStorage st)\<rparr>"

definition toggleFavorite :: "JSON \<Rightarrow> Medicine \<Rightarrow> Store \<Rightarrow> Store" where
  "toggleFavorite J medicine st =
     (let favs = favorites (state st);
          index = findIndex (\<lambda>f. m_id f = m_id medicine) favs;
          newFavorites =
            (if index \<noteq> None then filter (\<lambda>f. m_id f \<noteq> m_id medicine) favs
             else favs @ [medicine\<lparr>m_isFavorite := Some True\<rparr>])
      in \<lparr>state = (state st)\<lparr>favorites := newFavorites\<rparr>,
          asyncStorage = setItem ''favorites'' (stringify_medicines J newFavorites)
                           (asyncStorage st)\<rparr>)"

definition addReminder :: "JSON \<Rightarrow> Reminder \<Rightarrow> Store \<Rightarrow> Store" where
  "addReminder J reminder st =
     (let rs = reminders (state st) @ [reminder]
      in \<lparr>state = (state st)\<lparr>reminders := rs\<rparr>,
          asyncStorage = setItem ''reminders'' (stringify_reminders J rs) (asyncStorage st)\<rparr>)"

text \<open>The object spread \<^verbatim>\<open>{...r, ...updates}\<close>: a field present in the updates wins.\<close>

definition spread :: "Reminder \<Rightarrow> ReminderUpdates \<Rightarrow> Reminder" where
  "spread r updates =
     \<lparr>r_id = (case p_id updates of None \<Rightarrow> r_id r | Some v \<Rightarrow> v),
      r_medicineName = (case p_medicineName updates of None \<Rightarrow> r_medicineName r | Some v \<Rightarrow> v),
      r_time = (case p_time updates of None \<Rightarrow> r_time r | Some v \<Rightarrow> v),
      r_frequency = (case p_frequency updates of None \<Rightarrow> r_frequency r | Some v \<Rightarrow> v),
      r_notes = (case p_notes updates of None \<Rightarrow> r_notes r | Some v \<Rightarrow> Some v),
      r_enabled = (case p_enabled updates of None \<Rightarrow> r_enabled r | Some v \<Rightarrow> v)\<rparr>"

definition updateReminder :: "JSON \<Rightarrow> string \<Rightarrow> ReminderUpdates \<Rightarrow> Store \<Rightarrow> Store" where
  "updateReminder J ident updates st =
     (let rs = map (\<lambda>r. if r_id r = ident then spread r updates else r) (reminders (state st))
      in \<lparr>state = (state st)\<lparr>reminders := rs\<rparr>,
          asyncStorage = setItem ''reminders'' (stringify_reminders J rs) (asyncStorage st)\<rparr>)"

definition deleteReminder :: "JSON \<Rightarrow> string \<Rightarrow> Store \<Rightarrow> Store" where
  "deleteReminder J ident st =
     (let rs = filter (\<lambda>r. r_id r \<noteq> ident) (reminders (state st))
      in \<lparr>state = (state st)\<lparr>reminders := rs\<rparr>,
          asyncStorage = setItem ''reminders'' (stringify_reminders J rs) (asyncStorage st)\<rparr>)"

text \<open>
  \<^verbatim>\<open>hydrate\<close>. The block inside \<^verbatim>\<open>try\<close> awaits the eight reads together
  (\<^verbatim>\<open>Promise.all\<close> rejects as soon as one read rejects), then builds one object whose
  fields are \<^verbatim>\<open>v ? JSON.parse(v) : dflt\<close>, and passes it to a single \<^verbatim>\<open>set\<close>. An
  exception anywhere in the block, a rejected read or a \<^verbatim>\<open>JSON.parse\<close> that throws,
  leaves the block before \<^verbatim>\<open>set\<close> is called; the \<^verbatim>\<open>catch\<close> only logs. In
  \<open>hydrate_try\<close> the value \<open>None\<close> is that exception. A string is truthy when it is
  not empty.
\<close>

definition parseOr :: "(string \<Rightarrow> 'a option) \<Rightarrow> 'a \<Rightarrow> string option \<Rightarrow> 'a option" where
  "parseOr parse dflt v =
     (case v of None \<Rightarrow> Some dflt | Some s \<Rightarrow> (if s = [] then Some dflt else parse s))"

definition hydrate_try :: "JSON \<Rightarrow> AsyncStorage \<Rightarrow> AppState \<Rightarrow> AppState option" where
  "hydrate_try J disk s = do {
     theme \<leftarrow> getItem disk ''theme'';
     history \<leftarrow> getItem disk ''searchHistory'';
     favs \<leftarrow> getItem disk ''favorites'';
     rems \<leftarrow> getItem disk ''reminders'';
     user \<leftarrow> getItem disk ''currentUser'';
     docs \<leftarrow> getItem disk ''doctors'';
     cons \<leftarrow> getItem disk ''consultations'';
     pres \<leftarrow> getItem disk ''prescriptions'';
     v1 \<leftarrow> parseOr (parse_bool J) False theme;
     v2 \<leftarrow> parseOr (parse_medicines J) [] history;
     v3 \<leftarrow> parseOr (parse_medicines J) [] favs;
     v4 \<leftarrow> parseOr (parse_reminders J) [] rems;
     v5 \<leftarrow> parseOr (parse_user J) None user;
     v6 \<leftarrow> parseOr (parse_doctors J) [] docs;
     v7 \<leftarrow> parseOr (parse_consultations J) [] cons;
     v8 \<leftarrow> parseOr (parse_prescriptions J) [] pres;
     Some (s\<lparr>isDarkMode := v1, searchHistory := v2, favorites := v3, reminders := v4,
             currentUser := v5, doctors := v6, consultations := v7, prescriptions := v8\<rparr>)
   }"

text \<open>
  The result of \<open>hydrate\<close> is the outcome of the promise it returns: \<open>Some\<close> of the
  store when it resolves, \<open>None\<close> when it rejects.
\<close>

definition hydrate :: "JSON \<Rightarrow> Store \<Rightarrow> Store option" where
  "hydrate J st =
     (case hydrate_try J (asyncStorage st) (state st) of
        Some s' \<Rightarrow> Some (st\<lparr>state := s'\<rparr>)
      | None \<Rightarrow> Some st)"

text \<open>
  The states of the store that the application reaches. It starts with nothing
  persisted; a restart of the process puts the in-memory state back to its initial value
  and keeps what is persisted; \<open>hydrate\<close> and the operations above do the rest. (The
  operations of the store that are not modelled here touch neither the favorites nor the
  key they are persisted under.)
\<close>

inductive reachable :: "JSON \<Rightarrow> Store \<Rightarrow> bool" for J :: JSON where
  start: "reachable J \<lparr>state = initialState, asyncStorage = (\<lambda>k. Resolves None)\<rparr>"
| restart: "reachable J st \<Longrightarrow> reachable J (st\<lparr>state := initialState\<rparr>)"
| hydrated: "reachable J st \<Longrightarrow> hydrate J st = Some st' \<Longrightarrow> reachable J st'"
| addedToHistory: "reachable J st \<Longrightarrow> reachable J (addToHistory J m st)"
| clearedHistory: "reachable J st \<Longrightarrow> reachable J (clearHistory st)"
| toggledFavorite: "reachable J st \<Longrightarrow> reachable J (toggleFavorite J m st)"
| addedReminder: "reachable J st \<Longrightarrow> reachable J (addReminder J r st)"
| updatedReminder: "reachable J st \<Longrightarrow> reachable J (updateReminder J ident u st)"
| deletedReminder: "reachable J st \<Longrightarrow> reachable J (deleteReminder J ident st)"

text \<open>
  What is asked of \<^verbatim>\<open>JSON.parse\<close> and \<^verbatim>\<open>JSON.stringify\<close> for this: a sequence of
  medicines that was serialized, when parsed, has the identities it had, in their order.
\<close>

definition faithful :: "JSON \<Rightarrow> bool" where
  "faithful J \<longleftrightarrow>
     (\<forall>xs ys. parse_medicines J (stringify_medicines J xs) = Some ys
        \<longrightarrow> map m_id ys = map m_id xs)"

section \<open>The remote document collections and the booking transaction\<close>

text \<open>
  The two Firestore collections the booking protocol touches, as maps from document
  identifier to document. A consultation document is stored without its \<^verbatim>\<open>id\<close> field,
  under that identifier; the readers put \<^verbatim>\<open>doc.id\<close> back, so the model keeps \<open>c_id\<close>
  in the stored record, equal to the key.
\<close>

record Firestore =
  col_availability :: "string \<rightharpoonup> DoctorAvailability"
  col_consultations :: "string \<rightharpoonup> Consultation"

text \<open>
  \<^verbatim>\<open>runTransaction\<close> belongs to the Firestore client. Its contract: the update function
  reads through the transaction and buffers its writes; when the function throws or a
  promise it awaits rejects, nothing is written and the error is passed on; otherwise the
  buffered writes are committed together, or the commit fails with an error of the
  client's and nothing is written. Contention is retried inside the client, so
  transactions take effect one after another. The body is a function from the database
  it reads to the error it throws or the database after its writes; \<open>commitFailure\<close> is
  the message of the client's error when the commit fails, \<open>None\<close> when it succeeds.
\<close>

definition runTransaction ::
  "string option \<Rightarrow> (Firestore \<Rightarrow> string + Firestore) \<Rightarrow> Firestore \<Rightarrow> (string + unit) \<times> Firestore" where
  "runTransaction commitFailure body db =
     (case body db of
        Inl msg \<Rightarrow> (Inl msg, db)
      | Inr db' \<Rightarrow>
          (case commitFailure of
             Some msg \<Rightarrow> (Inl msg, db)
           | None \<Rightarrow> (Inr (), db')))"

text \<open>
  \<^verbatim>\<open>await transaction.get(availabilityRef)\<close>: the read rejects with an error of the
  client's (\<open>readFailure\<close> is its message), or gives the document, if there is one.
\<close>

definition transaction_get ::
  "string option \<Rightarrow> Firestore \<Rightarrow> string \<Rightarrow> string + DoctorAvailability option" where
  "transaction_get readFailure db docId =
     (case readFailure of
        Some msg \<Rightarrow> Inl msg
      | None \<Rightarrow> Inr (col_availability db docId))"

text \<open>
  \<^verbatim>\<open>transaction.set(consultationRef, consultation)\<close>: the client serializes the object
  when the write is issued and throws on a field whose value is \<^verbatim>\<open>undefined\<close>. Of the
  fields of the object that \<^verbatim>\<open>bookConsultation\<close> builds, the symptoms and the notes
  can be: they are optional in \<^verbatim>\<open>BookingData\<close>.
\<close>

definition unsupportedUndefined :: string where
  "unsupportedUndefined = ''Unsupported field value: undefined''"

definition serializable :: "Consultation \<Rightarrow> bool" where
  "serializable c \<longleftrightarrow> c_symptoms c \<noteq> None \<and> c_notes c \<noteq> None"

text \<open>\<^verbatim>\<open>availabilityDoc.data()?.slots || []\<close>\<close>

definition slotsOf :: "DoctorAvailability \<Rightarrow> TimeSlot list" where
  "slotsOf d = (case slots d of None \<Rightarrow> [] | Some xs \<Rightarrow> xs)"

text \<open>The function passed to \<^verbatim>\<open>runTransaction\<close> by \<^verbatim>\<open>bookConsultation\<close>.\<close>

definition bookingTransaction ::
  "string option \<Rightarrow> string \<Rightarrow> Consultation \<Rightarrow> Date \<Rightarrow> BookingData \<Rightarrow> TimeSlot \<Rightarrow> string
     \<Rightarrow> Firestore \<Rightarrow> string + Firestore" where
  "bookingTransaction readFailure ident consultation now bookingData selectedSlot selectedDate db =
     (let availabilityDocId = b_doctorId bookingData @ ''_'' @ selectedDate in
      case transaction_get readFailure db availabilityDocId of
        Inl msg \<Rightarrow> Inl msg
      | Inr None \<Rightarrow> Inl ''Availability not found''
      | Inr (Some availabilityDoc) \<Rightarrow>
          (let sl = slotsOf availabilityDoc in
           case findIndex (\<lambda>s. startTime s = startTime selectedSlot) sl of
             None \<Rightarrow> Inl ''Time slot not found''
           | Some slotIndex \<Rightarrow>
               if isBooked (sl ! slotIndex) then Inl ''This slot has already been booked''
               else
                 (let sl' = sl[slotIndex :=
                        (sl ! slotIndex)\<lparr>isBooked := True, consultationId := Some ident\<rparr>]
                  in if \<not> serializable consultation then Inl unsupportedUndefined
                     else
                       Inr (db\<lparr>col_availability := (col_availability db)(availabilityDocId \<mapsto>
                                availabilityDoc\<lparr>slots := Some sl', a_updatedAt := Some now\<rparr>),
                              col_consultations := (col_consultations db)(ident \<mapsto>
                                consultation)\<rparr>))))"

text \<open>
  \<^verbatim>\<open>bookConsultation\<close>. \<open>ident\<close> is the identifier that \<^verbatim>\<open>collection(...).doc()\<close>
  generates, \<open>now\<close> the value of \<^verbatim>\<open>new Date()\<close>. The result is the rejection message
  or the returned consultation, with the database afterwards.
\<close>

definition bookConsultation ::
  "string \<Rightarrow> Date \<Rightarrow> string option \<Rightarrow> string option \<Rightarrow> BookingData \<Rightarrow> TimeSlot \<Rightarrow> string
     \<Rightarrow> Firestore \<Rightarrow> (string + Consultation) \<times> Firestore" where
  "bookConsultation ident now readFailure commitFailure bookingData selectedSlot selectedDate db =
     (let agoraChannelName = ''consultation_'' @ ident;
          consultation =
            \<lparr>c_id = ident,
             c_patientId = b_patientId bookingData,
             c_patientName = b_patientName bookingData,
             c_doctorId = b_doctorId bookingData,
             c_doctorName = b_doctorName bookingData,
             c_doctorSpecialization = b_doctorSpecialization bookingData,
             c_scheduledTime = b_scheduledTime bookingData,
             c_duration = 30,
             c_status = Scheduled,
             c_consultationFee = b_consultationFee bookingData,
             c_agoraChannelName = agoraChannelName,
             c_agoraToken = None,
             c_symptoms = b_symptoms bookingData,
             c_notes = b_notes bookingData,
             c_doctorNotes = None,
             c_prescriptionId = None,
             c_createdAt = Some now,
             c_updatedAt = Some now\<rparr>
      in case runTransaction commitFailure
                (bookingTransaction readFailure ident consultation now bookingData selectedSlot
                   selectedDate)
                db of
           (Inr u, db') \<Rightarrow> (Inr consultation, db')
         | (Inl msg, db') \<Rightarrow>
             (if msg = ''This slot has already been booked'' then (Inl msg, db')
              else (Inl ''Failed to book consultation. Please try again.'', db')))"

text \<open>The consultation object that \<^verbatim>\<open>bookConsultation\<close> builds, by itself.\<close>

definition newConsultation :: "string \<Rightarrow> Date \<Rightarrow> BookingData \<Rightarrow> Consultation" where
  "newConsultation ident now bookingData =
            \<lparr>c_id = ident,
             c_patientId = b_patientId bookingData,
             c_patientName = b_patientName bookingData,
             c_doctorId = b_doctorId bookingData,
             c_doctorName = b_doctorName bookingData,
             c_doctorSpecialization = b_doctorSpecialization bookingData,
             c_scheduledTime = b_scheduledTime bookingData,
             c_duration = 30,
             c_status = Scheduled,
             c_consultationFee = b_consultationFee bookingData,
             c_agoraChannelName = ''consultation_'' @ ident,
             c_agoraToken = None,
             c_symptoms = b_symptoms bookingData,
             c_notes = b_notes bookingData,
             c_doctorNotes = None,
             c_prescriptionId = None,
             c_createdAt = Some now,
             c_updatedAt = Some now\<rparr>"

text \<open>
  A booking attempt that the transactions execute: its read of the availability record is
  served from the database, its commit may fail. A sequence of attempts is ordered by the
  transactions, one after another.
\<close>

record Attempt =
  t_ident :: string
  t_now :: Date
  t_failure :: "string option"
  t_bookingData :: BookingData
  t_selectedSlot :: TimeSlot
  t_selectedDate :: string

definition attempt :: "Attempt \<Rightarrow> Firestore \<Rightarrow> (string + Consultation) \<times> Firestore" where
  "attempt a db =
     bookConsultation (t_ident a) (t_now a) None (t_failure a) (t_bookingData a)
       (t_selectedSlot a) (t_selectedDate a) db"

fun attempts :: "Attempt list \<Rightarrow> Firestore \<Rightarrow> (string + Consultation) list \<times> Firestore" where
  "attempts [] db = ([], db)"
| "attempts (a # as) db =
     (case attempt a db of (r, db') \<Rightarrow>
        (case attempts as db' of (rs, db'') \<Rightarrow> (r # rs, db'')))"




text \<open>
  What the transaction looks at: the slot of an availability record that a start time
  designates is the first one with that start time.
\<close>

definition requestedSlot :: "Firestore \<Rightarrow> string \<Rightarrow> string \<Rightarrow> TimeSlot option" where
  "requestedSlot db docId t =
     (case col_availability db docId of
        None \<Rightarrow> None
      | Some d \<Rightarrow>
          (case findIndex (\<lambda>s. startTime s = t) (slotsOf d) of
             None \<Rightarrow> None
           | Some i \<Rightarrow> Some (slotsOf d ! i)))"

definition slotBooked :: "Firestore \<Rightarrow> string \<Rightarrow> string \<Rightarrow> bool" where
  "slotBooked db docId t =
     (case requestedSlot db docId t of None \<Rightarrow> False | Some s \<Rightarrow> isBooked s)"




section \<open>Status updates\<close>

text \<open>
  \<^verbatim>\<open>updateConsultationStatus\<close> and \<^verbatim>\<open>cancelConsultation\<close>. Firestore's
  \<^verbatim>\<open>update\<close> rejects when the document does not exist; \<open>failure\<close> is any other
  error of the client's.
\<close>

definition updateConsultationStatus ::
  "string option \<Rightarrow> Date \<Rightarrow> string \<Rightarrow> ConsultationStatus \<Rightarrow> Firestore
     \<Rightarrow> (string + unit) \<times> Firestore" where
  "updateConsultationStatus failure now ident status db =
     (case failure of
        Some msg \<Rightarrow> (Inl ''Failed to update consultation status.'', db)
      | None \<Rightarrow>
          (case col_consultations db ident of
             None \<Rightarrow> (Inl ''Failed to update consultation status.'', db)
           | Some c \<Rightarrow>
               (Inr (), db\<lparr>col_consultations := (col_consultations db)(ident \<mapsto>
                             c\<lparr>c_status := status, c_updatedAt := Some now\<rparr>)\<rparr>)))"

definition cancelConsultation ::
  "string option \<Rightarrow> Date \<Rightarrow> string \<Rightarrow> Firestore \<Rightarrow> (string + unit) \<times> Firestore" where
  "cancelConsultation failure now ident db =
     (case updateConsultationStatus failure now ident Cancelled db of
        (Inr u, db') \<Rightarrow> (Inr (), db')
      | (Inl msg, db') \<Rightarrow> (Inl ''Failed to cancel consultation.'', db'))"

datatype StatusOp =
    UpdateStatus "string option" Date string ConsultationStatus
  | Cancel "string option" Date string

fun statusOp :: "Firestore \<Rightarrow> StatusOp \<Rightarrow> Firestore" where
  "statusOp db (UpdateStatus failure now ident status) =
     snd (updateConsultationStatus failure now ident status db)"
| "statusOp db (Cancel failure now ident) = snd (cancelConsultation failure now ident db)"

definition statusOf :: "Firestore \<Rightarrow> string \<Rightarrow> ConsultationStatus option" where
  "statusOf db ident = map_option c_status (col_consultations db ident)"

definition terminal :: "ConsultationStatus \<Rightarrow> bool" where
  "terminal s \<longleftrightarrow> s = Cancelled \<or> s = Completed"

text \<open>
  An operation that asks for the status \<^verbatim>\<open>scheduled\<close> or \<^verbatim>\<open>ongoing\<close> of the
  consultation \<open>ident\<close>.
\<close>

fun reopens :: "string \<Rightarrow> StatusOp \<Rightarrow> bool" where
  "reopens ident (UpdateStatus failure now ident' status) =
     (ident' = ident \<and> (status = Scheduled \<or> status = Ongoing))"
| "reopens ident (Cancel failure now ident') = False"

section \<open>The consultation reminder\<close>

text \<open>
  The local-time arithmetic of a JavaScript \<^verbatim>\<open>Date\<close>, as ECMAScript defines it. A
  time zone gives the offset of local time from UTC, in milliseconds, at an instant
  (\<^verbatim>\<open>LocalTZA(t, true)\<close>) and for a reading of the local clock
  (\<^verbatim>\<open>LocalTZA(t, false)\<close>). \<^verbatim>\<open>getHours\<close> is the hour of the local reading;
  \<^verbatim>\<open>setHours(h)\<close> keeps the day, minute, second and millisecond of the local reading,
  puts the hour \<open>h\<close> and converts the new reading back to an instant.
\<close>

record TimeZone =
  offsetAtInstant :: "Date \<Rightarrow> int"
  offsetAtLocal :: "Date \<Rightarrow> int"

definition LocalTime :: "TimeZone \<Rightarrow> Date \<Rightarrow> int" where
  "LocalTime tz t = t + offsetAtInstant tz t"

definition UTC :: "TimeZone \<Rightarrow> int \<Rightarrow> Date" where
  "UTC tz l = l - offsetAtLocal tz l"

definition getHours :: "TimeZone \<Rightarrow> Date \<Rightarrow> int" where
  "getHours tz t = (LocalTime tz t mod 86400000) div 3600000"

definition setHours :: "TimeZone \<Rightarrow> int \<Rightarrow> Date \<Rightarrow> Date" where
  "setHours tz hour t =
     (let l = LocalTime tz t
      in UTC tz ((l div 86400000) * 86400000 + hour * 3600000 + l mod 3600000))"

text \<open>
  \<^verbatim>\<open>scheduleConsultationReminder\<close> of the notification service. The state is the list of
  the notifications handed to \<^verbatim>\<open>PushNotification.localNotificationSchedule\<close>; \<open>now\<close>
  is the value of \<^verbatim>\<open>new Date()\<close>.
\<close>

record Notification =
  n_channelId :: string
  n_id :: string
  n_title :: string
  n_message :: string
  n_date :: Date
  n_allowWhileIdle :: bool
  n_playSound :: bool
  n_soundName :: string
  n_userInfo :: "(string \<times> string) list"

definition scheduleConsultationReminder ::
  "TimeZone \<Rightarrow> Date \<Rightarrow> Consultation \<Rightarrow> Notification list \<Rightarrow> Notification list" where
  "scheduleConsultationReminder tz now consultation scheduled =
     (let reminderTime = c_scheduledTime consultation;
          reminderTime = setHours tz (getHours tz reminderTime - 1) reminderTime in
      if reminderTime > now then
        scheduled @
          [\<lparr>n_channelId = ''consultation-reminders'',
            n_id = ''consultation-reminder-'' @ c_id consultation,
            n_title = ''Consultation Reminder'',
            n_message = ''Your consultation with Dr. '' @ c_doctorName consultation
                          @ '' starts in 1 hour'',
            n_date = reminderTime,
            n_allowWhileIdle = True,
            n_playSound = True,
            n_soundName = ''default'',
            n_userInfo = [(''consultationId'', c_id consultation), (''type'', ''reminder'')]\<rparr>]
      else scheduled)"

text \<open>
  The local clock is steady before \<open>t\<close> when the reading one hour before the reading
  at \<open>t\<close> has the offset that holds at \<open>t\<close>: no change of the clock lies between.
\<close>

definition steadyClock :: "TimeZone \<Rightarrow> Date \<Rightarrow> bool" where
  "steadyClock tz t \<longleftrightarrow> offsetAtLocal tz (LocalTime tz t - 3600000) = offsetAtInstant tz t"

section \<open>Sample values\<close>

text \<open>
  Concrete inputs for the closed theorems below: medicines with pairwise different
  identifiers, a store as it is before anything was persisted, and an instance of the
  JSON functions that understands the literals \<^verbatim>\<open>true\<close>, \<^verbatim>\<open>false\<close>,
  \<^verbatim>\<open>null\<close> and \<^verbatim>\<open>[]\<close> and rejects every other text.
\<close>

definition sampleMedicine :: "nat \<Rightarrow> Medicine" where
  "sampleMedicine n =
     \<lparr>m_id = replicate n (CHR ''i''), m_name = ''Paracetamol'', m_description = [],
      m_ingredients = [], m_uses = [], m_sideEffects = [], m_dosage = [], m_warnings = [],
      m_timestamp = of_nat n, m_isFavorite = None\<rparr>"

definition literalJSON :: JSON where
  "literalJSON =
     \<lparr>stringify_medicines = (\<lambda>ms. if ms = [] then ''[]'' else ''[...]''),
      stringify_reminders = (\<lambda>rs. if rs = [] then ''[]'' else ''[...]''),
      parse_bool = (\<lambda>s. if s = ''true'' then Some True else if s = ''false'' then Some False else None),
      parse_medicines = (\<lambda>s. if s = ''[]'' then Some [] else None),
      parse_reminders = (\<lambda>s. if s = ''[]'' then Some [] else None),
      parse_user = (\<lambda>s. if s = ''null'' then Some None else None),
      parse_doctors = (\<lambda>s. if s = ''[]'' then Some [] else None),
      parse_consultations = (\<lambda>s. if s = ''[]'' then Some [] else None),
      parse_prescriptions = (\<lambda>s. if s = ''[]'' then Some [] else None)\<rparr>"

definition freshStore :: Store where
  "freshStore = \<lparr>state = initialState, asyncStorage = (\<lambda>k. Resolves None)\<rparr>"

text \<open>The store after two medicines were made favorites.\<close>

definition twoFavorites :: Store where
  "twoFavorites =
     toggleFavorite literalJSON (sampleMedicine 2)
       (toggleFavorite literalJSON (sampleMedicine 1) freshStore)"

text \<open>
  The scenario of the specification: doctor D offers the slots 09:00 and 09:30 on
  2025-11-29, patient A and then patient B ask for the slot 09:00. \<open>bookedDb\<close> is
  the database after patient A's booking, in which the consultation \<^verbatim>\<open>c1\<close> holds
  the slot.
\<close>

definition slot0900 :: TimeSlot where
  "slot0900 = \<lparr>startTime = ''09:00'', endTime = ''09:30'', isBooked = False, consultationId = None\<rparr>"

definition slot0930 :: TimeSlot where
  "slot0930 = \<lparr>startTime = ''09:30'', endTime = ''10:00'', isBooked = False, consultationId = None\<rparr>"

definition sampleAvailability :: "TimeSlot list \<Rightarrow> DoctorAvailability" where
  "sampleAvailability sl =
     \<lparr>a_id = ''D_2025-11-29'', a_doctorId = ''D'', a_date = ''2025-11-29'', slots = Some sl,
      a_createdAt = None, a_updatedAt = None\<rparr>"

definition sampleDb :: Firestore where
  "sampleDb =
     \<lparr>col_availability = [''D_2025-11-29'' \<mapsto> sampleAvailability [slot0900, slot0930]],
      col_consultations = Map.empty\<rparr>"

definition sampleBooking :: "string \<Rightarrow> BookingData" where
  "sampleBooking patient =
     \<lparr>b_doctorId = ''D'', b_doctorName = ''Rao'', b_doctorSpecialization = ''Cardiology'',
      b_patientId = patient, b_patientName = patient, b_scheduledTime = 1764406800000,
      b_consultationFee = 500, b_symptoms = Some ''cough'', b_notes = Some []\<rparr>"

definition attemptA :: Attempt where
  "attemptA =
     \<lparr>t_ident = ''c1'', t_now = 1764300000000, t_failure = None,
      t_bookingData = sampleBooking ''A'', t_selectedSlot = slot0900,
      t_selectedDate = ''2025-11-29''\<rparr>"


definition bookedDb :: Firestore where
  "bookedDb = snd (attempt attemptA sampleDb)"

text \<open>
  A store whose persisted theme is \<^verbatim>\<open>true\<close> and whose favorites are missing, and one
  whose persisted favorites are the text \<^verbatim>\<open>{\<close>, which \<^verbatim>\<open>JSON.parse\<close> rejects.
\<close>

definition themeStore :: Store where
  "themeStore =
     \<lparr>state = initialState,
      asyncStorage = (\<lambda>k. Resolves None)(''theme'' := Resolves (Some ''true''))\<rparr>"

definition corruptStore :: Store where
  "corruptStore =
     \<lparr>state = initialState,
      asyncStorage = (\<lambda>k. Resolves None)
        (''theme'' := Resolves (Some ''true''), ''favorites'' := Resolves (Some ''{''))\<rparr>"

text \<open>A store whose persisted theme is the text \<^verbatim>\<open>yes\<close>, which is not JSON.\<close>

definition unparsableThemeStore :: Store where
  "unparsableThemeStore =
     \<lparr>state = initialState,
      asyncStorage = (\<lambda>k. Resolves None)
        (''theme'' := Resolves (Some ''yes''), ''favorites'' := Resolves (Some ''[]''))\<rparr>"

text \<open>A database with one cancelled consultation, booked for a time far ahead.\<close>

definition cancelledConsultation :: Consultation where
  "cancelledConsultation =
     (newConsultation ''c1'' 1764300000000 (sampleBooking ''A''))\<lparr>c_status := Cancelled\<rparr>"

definition cancelledDb :: Firestore where
  "cancelledDb =
     \<lparr>col_availability = Map.empty, col_consultations = [''c1'' \<mapsto> cancelledConsultation]\<rparr>"


definition newYorkZone :: TimeZone where
  "newYorkZone =
     \<lparr>offsetAtInstant = (\<lambda>t. if t < 1762063200000 then - 14400000 else - 18000000),
      offsetAtLocal = (\<lambda>l. if l < 1762048800000 then - 14400000 else - 18000000)\<rparr>"

definition nightConsultation :: Consultation where
  "nightConsultation =
     (newConsultation ''c3'' 1762000000000 (sampleBooking ''A''))
       \<lparr>c_scheduledTime := 1762065000000\<rparr>"

section \<open>Search history\<close>

lemma addToHistory_history:
  "searchHistory (state (addToHistory J m st)) =
     take 50 (m # filter (\<lambda>x. m_id x \<noteq> m_id m) (searchHistory (state st)))"
  by (simp add: addToHistory_def Let_def)

lemma take_filter_prefix:
  assumes "\<forall>x\<in>set A. P x"
  shows "\<exists>rest'. take 50 (m # filter P (take 50 (A @ rest))) = take 50 (m # A @ rest')"
proof (cases "length A \<ge> 50")
  case True
  then have a: "take 50 (A @ rest) = take 50 A" by simp
  have b: "filter P (take 50 A) = take 50 A"
    using assms by (metis filter_True in_set_takeD)
  have "take 50 (m # take 50 A) = take 50 (m # A @ [])"
    by (simp add: take_Cons')
  then have "take 50 (m # filter P (take 50 (A @ rest))) = take 50 (m # A @ [])"
    unfolding a b .
  then show ?thesis by blast
next
  case False
  then have "take 50 (A @ rest) = A @ take (50 - length A) rest" by simp
  moreover have "filter P A = A" using assms by simp
  ultimately have "take 50 (m # filter P (take 50 (A @ rest)))
      = take 50 (m # A @ filter P (take (50 - length A) rest))" by simp
  then show ?thesis by blast
qed

lemma fold_hist:
  "distinct (map m_id ms) \<Longrightarrow> ms \<noteq> [] \<Longrightarrow>
   \<exists>rest. searchHistory (state (foldl (\<lambda>s x. addToHistory J x s) st ms)) = take 50 (rev ms @ rest)"
proof (induction ms rule: rev_induct)
  case Nil
  then show ?case by simp
next
  case (snoc m ms)
  show ?case
  proof (cases "ms = []")
    case True
    then show ?thesis by (auto simp: addToHistory_history)
  next
    case False
    with snoc obtain rest where
      r: "searchHistory (state (foldl (\<lambda>s x. addToHistory J x s) st ms)) = take 50 (rev ms @ rest)"
      by auto
    have "\<forall>x\<in>set (rev ms). m_id x \<noteq> m_id m" using snoc.prems by (auto simp: image_iff)
    from take_filter_prefix[OF this, of m rest] obtain rest' where
      "take 50 (m # filter (\<lambda>x. m_id x \<noteq> m_id m) (take 50 (rev ms @ rest))) = take 50 (m # rev ms @ rest')"
      by blast
    then show ?thesis using r by (auto simp: addToHistory_history)
  qed
qed

lemma fold_hist_full:
  assumes "distinct (map m_id ms)" "50 \<le> length ms"
  shows "searchHistory (state (foldl (\<lambda>s x. addToHistory J x s) st ms)) = take 50 (rev ms)"
proof -
  from assms have "ms \<noteq> []" by auto
  from fold_hist[OF assms(1) this] obtain rest where
    "searchHistory (state (foldl (\<lambda>s x. addToHistory J x s) st ms)) = take 50 (rev ms @ rest)" by blast
  then show ?thesis using assms(2) by simp
qed

lemma filter_take_filter: "filter (\<lambda>x. \<not> P x) (take n (filter P xs)) = []"
  by (auto simp: filter_empty_conv dest: in_set_takeD)

lemma count_after_add:
  "length (filter (\<lambda>x. m_id x = m_id m) (searchHistory (state (addToHistory J m st)))) = 1"
proof -
  have "filter (\<lambda>x. \<not> m_id x \<noteq> m_id m) (take 49 (filter (\<lambda>x. m_id x \<noteq> m_id m) (searchHistory (state st)))) = []"
    by (rule filter_take_filter)
  then show ?thesis by (simp add: addToHistory_history take_Cons')
qed

lemma readd_not_longer:
  assumes "m_id m \<in> m_id ` set (searchHistory (state st))"
  shows "length (searchHistory (state (addToHistory J m st))) \<le> length (searchHistory (state st))"
proof -
  let ?h = "searchHistory (state st)"
  from assms obtain x where "x \<in> set ?h" "\<not> m_id x \<noteq> m_id m" by auto
  then have "length (filter (\<lambda>x. m_id x \<noteq> m_id m) ?h) < length ?h"
    by (rule length_filter_less)
  then show ?thesis by (simp add: addToHistory_history)
qed

text \<open>
  Claim C5. \<open>addToHistory\<close> removes every entry with the identity of the new medicine,
  puts the new medicine in front and keeps the first 50 entries. So the new medicine is
  the head, its identity occurs exactly once, the history has at most 50 entries, and
  adding a medicine whose identity is already there does not make the history longer.
  After adding 51 medicines with pairwise different identities, from any history, the
  history is exactly the last 50 of them, the most recent first.
\<close>

theorem addToHistory_cap_dedup:
  "searchHistory (state (addToHistory J m st))
      = take 50 (m # filter (\<lambda>x. m_id x \<noteq> m_id m) (searchHistory (state st)))
   \<and> length (searchHistory (state (addToHistory J m st))) \<le> 50
   \<and> hd (searchHistory (state (addToHistory J m st))) = m
   \<and> length (filter (\<lambda>x. m_id x = m_id m) (searchHistory (state (addToHistory J m st)))) = 1
   \<and> (m_id m \<in> m_id ` set (searchHistory (state st)) \<longrightarrow>
        length (searchHistory (state (addToHistory J m st))) \<le> length (searchHistory (state st)))
   \<and> (distinct (map m_id ms) \<and> length ms = 51 \<longrightarrow>
        searchHistory (state (foldl (\<lambda>s x. addToHistory J x s) st ms)) = take 50 (rev ms)
        \<and> length (searchHistory (state (foldl (\<lambda>s x. addToHistory J x s) st ms))) = 50)"
proof -
  have 1: "length (searchHistory (state (addToHistory J m st))) \<le> 50"
    by (simp add: addToHistory_history)
  have 2: "hd (searchHistory (state (addToHistory J m st))) = m"
    by (simp add: addToHistory_history take_Cons')
  have 3: "distinct (map m_id ms) \<and> length ms = 51 \<longrightarrow>
        searchHistory (state (foldl (\<lambda>s x. addToHistory J x s) st ms)) = take 50 (rev ms)
        \<and> length (searchHistory (state (foldl (\<lambda>s x. addToHistory J x s) st ms))) = 50"
    by (simp add: fold_hist_full)
  show ?thesis
    using addToHistory_history[of J m st] 1 2 3 count_after_add[of m J st] readd_not_longer[of m st J]
    by blast
qed

lemma sample_distinct: "distinct (map m_id (map sampleMedicine [0..<n]))"
  by (simp add: distinct_map sampleMedicine_def inj_on_def comp_def)

theorem addToHistory_cap_dedup_witness:
  "distinct (map m_id (map sampleMedicine [0..<51]))
   \<and> length (map sampleMedicine [0..<51]) = 51
   \<and> searchHistory (state (foldl (\<lambda>s x. addToHistory literalJSON x s)
          (addToHistory literalJSON (sampleMedicine 7) freshStore)
          (map sampleMedicine [0..<51]))) = take 50 (rev (map sampleMedicine [0..<51]))
   \<and> m_id (sampleMedicine 7)
         \<in> m_id ` set (searchHistory (state (addToHistory literalJSON (sampleMedicine 7) freshStore)))
   \<and> length (searchHistory (state (addToHistory literalJSON (sampleMedicine 7)
         (addToHistory literalJSON (sampleMedicine 7) freshStore))))
       \<le> length (searchHistory (state (addToHistory literalJSON (sampleMedicine 7) freshStore)))"
proof -
  let ?ms = "map sampleMedicine [0..<51]"
  let ?st = "addToHistory literalJSON (sampleMedicine 7) freshStore"
  have d: "distinct (map m_id ?ms)" by (rule sample_distinct)
  have l: "length ?ms = 51" by simp
  have i: "m_id (sampleMedicine 7) \<in> m_id ` set (searchHistory (state ?st))"
    by (simp add: addToHistory_history freshStore_def initialState_def)
  note t = addToHistory_cap_dedup[of literalJSON "sampleMedicine 7" ?st ?ms]
  from t have "distinct (map m_id ?ms) \<and> length ?ms = 51 \<longrightarrow>
      searchHistory (state (foldl (\<lambda>s x. addToHistory literalJSON x s) ?st ?ms)) = take 50 (rev ?ms)
      \<and> length (searchHistory (state (foldl (\<lambda>s x. addToHistory literalJSON x s) ?st ?ms))) = 50"
    by (elim conjE)
  with d l have h: "searchHistory (state (foldl (\<lambda>s x. addToHistory literalJSON x s) ?st ?ms))
      = take 50 (rev ?ms)"
    by (elim impE conjE) (rule conjI)
  from t have "m_id (sampleMedicine 7) \<in> m_id ` set (searchHistory (state ?st)) \<longrightarrow>
       length (searchHistory (state (addToHistory literalJSON (sampleMedicine 7) ?st)))
       \<le> length (searchHistory (state ?st))"
    by (elim conjE)
  with i have le: "length (searchHistory (state (addToHistory literalJSON (sampleMedicine 7) ?st)))
       \<le> length (searchHistory (state ?st))"
    by (rule rev_mp)
  show ?thesis using d l h i le by (intro conjI)
qed

section \<open>Favorites\<close>

lemma findIndex_None_iff: "findIndex P xs = None \<longleftrightarrow> (\<forall>x\<in>set xs. \<not> P x)"
  by (induction xs) auto

lemma findIndex_found_iff: "findIndex P xs \<noteq> None \<longleftrightarrow> (\<exists>x\<in>set xs. P x)"
  by (simp add: findIndex_None_iff)

lemma sampleMedicine_id_eq [simp]:
  "m_id (sampleMedicine a) = m_id (sampleMedicine b) \<longleftrightarrow> a = b"
proof
  assume "m_id (sampleMedicine a) = m_id (sampleMedicine b)"
  then have "length (replicate a (CHR ''i'')) = length (replicate b (CHR ''i''))"
    by (simp add: sampleMedicine_def)
  then show "a = b" by simp
qed simp

lemma toggleFavorite_favorites:
  "favorites (state (toggleFavorite J m st)) =
     (if \<exists>f\<in>set (favorites (state st)). m_id f = m_id m
      then filter (\<lambda>f. m_id f \<noteq> m_id m) (favorites (state st))
      else favorites (state st) @ [m\<lparr>m_isFavorite := Some True\<rparr>])"
  by (simp add: toggleFavorite_def Let_def findIndex_found_iff del: not_None_eq)

lemma toggle_twice_absent:
  assumes "\<forall>f\<in>set (favorites (state st)). m_id f \<noteq> m_id m"
  shows "favorites (state (toggleFavorite J m (toggleFavorite J m st))) = favorites (state st)"
  using assms by (simp add: toggleFavorite_favorites)

lemma toggle_twice_present:
  assumes "\<exists>f\<in>set (favorites (state st)). m_id f = m_id m"
  shows "favorites (state (toggleFavorite J m (toggleFavorite J m st)))
       = filter (\<lambda>f. m_id f \<noteq> m_id m) (favorites (state st)) @ [m\<lparr>m_isFavorite := Some True\<rparr>]"
  using assms by (simp add: toggleFavorite_favorites)

lemma toggle_twice_ids:
  "m_id ` set (favorites (state (toggleFavorite J m (toggleFavorite J m st))))
     = m_id ` set (favorites (state st))"
proof (cases "\<exists>f\<in>set (favorites (state st)). m_id f = m_id m")
  case True
  then show ?thesis unfolding toggle_twice_present[OF True] by (auto simp: image_iff) metis
next
  case False
  then show ?thesis by (simp add: toggle_twice_absent)
qed

lemma toggle_twice_length:
  "length (favorites (state (toggleFavorite J m (toggleFavorite J m st))))
     = (if \<exists>f\<in>set (favorites (state st)). m_id f = m_id m
        then length (favorites (state st))
               - length (filter (\<lambda>f. m_id f = m_id m) (favorites (state st))) + 1
        else length (favorites (state st)))"
proof (cases "\<exists>f\<in>set (favorites (state st)). m_id f = m_id m")
  case True
  have "length (filter (\<lambda>f. m_id f \<noteq> m_id m) (favorites (state st)))
      = length (favorites (state st)) - length (filter (\<lambda>f. m_id f = m_id m) (favorites (state st)))"
    using sum_length_filter_compl[of "\<lambda>f. m_id f = m_id m" "favorites (state st)"] by simp
  then show ?thesis using True unfolding toggle_twice_present[OF True] by simp
next
  case False
  then show ?thesis by (simp add: toggle_twice_absent)
qed

lemma toggle_distinct:
  assumes "distinct (map m_id (favorites (state st)))"
  shows "distinct (map m_id (favorites (state (toggleFavorite J m st))))"
  using assms by (auto simp: toggleFavorite_favorites distinct_map_filter)

lemma distinct_constant_short:
  assumes "distinct (map f xs)" "\<forall>x\<in>set xs. f x = a"
  shows "length xs \<le> 1"
proof (cases xs)
  case Nil
  then show ?thesis by simp
next
  case (Cons x ys)
  show ?thesis
  proof (cases ys)
    case Nil
    with Cons show ?thesis by simp
  next
    case (Cons y zs)
    with \<open>xs = x # ys\<close> assms(2) have "f x = a" "f y = a" by simp_all
    then have "f x = f y" by simp
    moreover from \<open>xs = x # ys\<close> Cons assms(1) have "f x \<noteq> f y" by simp
    ultimately show ?thesis by simp
  qed
qed

lemma toggle_twice_same_length:
  assumes "distinct (map m_id (favorites (state st)))"
  shows "length (favorites (state (toggleFavorite J m (toggleFavorite J m st))))
          = length (favorites (state st))"
proof (cases "\<exists>f\<in>set (favorites (state st)). m_id f = m_id m")
  case True
  let ?same = "filter (\<lambda>f. m_id f = m_id m) (favorites (state st))"
  from assms have "distinct (map m_id ?same)" by (simp add: distinct_map_filter)
  moreover have "\<forall>f\<in>set ?same. m_id f = m_id m" by simp
  ultimately have "length ?same \<le> 1"
    by (rule distinct_constant_short)
  moreover from True have "?same \<noteq> []" by (simp add: filter_empty_conv)
  ultimately have "length ?same = 1" by (cases ?same) auto
  moreover have "length ?same \<le> length (favorites (state st))" by simp
  ultimately show ?thesis using True by (simp add: toggle_twice_length)
next
  case False
  then show ?thesis by (simp add: toggle_twice_length)
qed

lemma hydrate_try_favorites:
  assumes "hydrate_try J disk s = Some s'"
  shows "\<exists>favs. getItem disk ''favorites'' = Some favs
           \<and> parseOr (parse_medicines J) [] favs = Some (favorites s')"
  using assms by (clarsimp simp: hydrate_try_def bind_eq_Some_conv)

lemma reachable_favorites:
  assumes "faithful J" "reachable J st"
  shows "distinct (map m_id (favorites (state st)))
         \<and> (\<forall>v xs. asyncStorage st ''favorites'' = Resolves (Some v)
               \<longrightarrow> parse_medicines J v = Some xs \<longrightarrow> distinct (map m_id xs))"
  using assms(2)
proof (induction rule: reachable.induct)
  case start
  show ?case by (simp add: initialState_def)
next
  case (restart st)
  then show ?case by (simp add: initialState_def)
next
  case (hydrated st st')
  show ?case
  proof (cases "hydrate_try J (asyncStorage st) (state st)")
    case None
    with hydrated show ?thesis by (simp add: hydrate_def)
  next
    case (Some s')
    with hydrated.hyps(2) have st': "st' = st\<lparr>state := s'\<rparr>" by (simp add: hydrate_def)
    from hydrate_try_favorites[OF Some] obtain favs where
      f: "getItem (asyncStorage st) ''favorites'' = Some favs"
         "parseOr (parse_medicines J) [] favs = Some (favorites s')"
      by blast
    have "distinct (map m_id (favorites s'))"
    proof (cases favs)
      case None
      with f(2) show ?thesis by (simp add: parseOr_def)
    next
      case v: (Some v)
      show ?thesis
      proof (cases "v = []")
        case True
        with f(2) v show ?thesis by (simp add: parseOr_def)
      next
        case False
        with f v have "asyncStorage st ''favorites'' = Resolves (Some v)"
          "parse_medicines J v = Some (favorites s')"
          by (auto simp: parseOr_def getItem_def split: stored.splits)
        with hydrated.IH show ?thesis by blast
      qed
    qed
    with hydrated.IH st' show ?thesis by simp
  qed
next
  case (addedToHistory st m)
  then show ?case by (simp add: addToHistory_def Let_def setItem_def)
next
  case (clearedHistory st)
  then show ?case by (simp add: clearHistory_def removeItem_def)
next
  case (toggledFavorite st m)
  then have d: "distinct (map m_id (favorites (state (toggleFavorite J m st))))"
    by (simp add: toggle_distinct)
  have "asyncStorage (toggleFavorite J m st) ''favorites''
      = Resolves (Some (stringify_medicines J (favorites (state (toggleFavorite J m st)))))"
    by (simp add: toggleFavorite_def Let_def setItem_def)
  moreover have "distinct (map m_id xs)"
    if "parse_medicines J (stringify_medicines J (favorites (state (toggleFavorite J m st))))
          = Some xs" for xs
  proof -
    from assms(1) that have "map m_id xs = map m_id (favorites (state (toggleFavorite J m st)))"
      unfolding faithful_def by blast
    with d show ?thesis by simp
  qed
  ultimately show ?case using d by simp
next
  case (addedReminder st r)
  then show ?case by (simp add: addReminder_def Let_def setItem_def)
next
  case (updatedReminder st ident u)
  then show ?case by (simp add: updateReminder_def Let_def setItem_def)
next
  case (deletedReminder st ident)
  then show ?case by (simp add: deleteReminder_def Let_def setItem_def)
qed

lemma faithful_literalJSON: "faithful literalJSON"
  by (simp add: faithful_def literalJSON_def)

lemma reachable_twoFavorites: "reachable literalJSON twoFavorites"
  unfolding twoFavorites_def freshStore_def
  by (intro reachable.toggledFavorite reachable.start)

text \<open>
  Claim C6. In every state that the store reaches, the identities in the favorites are
  unique, and two calls of \<open>toggleFavorite\<close> with the same medicine give back the set
  of identities in the favorites and their number. The set of identities comes back from
  any favorites at all; the number comes back whenever the identities are unique, which
  \<open>toggleFavorite\<close> keeps them.
\<close>

theorem toggleFavorite_twice:
  "m_id ` set (favorites (state (toggleFavorite J m (toggleFavorite J m st))))
     = m_id ` set (favorites (state st))
   \<and> (distinct (map m_id (favorites (state st))) \<longrightarrow>
        length (favorites (state (toggleFavorite J m (toggleFavorite J m st))))
          = length (favorites (state st))
        \<and> distinct (map m_id (favorites (state (toggleFavorite J m st)))))
   \<and> (faithful J \<and> reachable J st \<longrightarrow>
        distinct (map m_id (favorites (state st)))
        \<and> length (favorites (state (toggleFavorite J m (toggleFavorite J m st))))
            = length (favorites (state st)))"
proof (intro conjI impI)
  show "m_id ` set (favorites (state (toggleFavorite J m (toggleFavorite J m st))))
     = m_id ` set (favorites (state st))"
    by (rule toggle_twice_ids)
next
  assume "distinct (map m_id (favorites (state st)))"
  then show "length (favorites (state (toggleFavorite J m (toggleFavorite J m st))))
          = length (favorites (state st))"
    by (rule toggle_twice_same_length)
next
  assume "distinct (map m_id (favorites (state st)))"
  then show "distinct (map m_id (favorites (state (toggleFavorite J m st))))"
    by (rule toggle_distinct)
next
  assume a: "faithful J \<and> reachable J st"
  then have "faithful J" "reachable J st" by simp_all
  from reachable_favorites[OF this] show d: "distinct (map m_id (favorites (state st)))"
    by (rule conjunct1)
  then show "length (favorites (state (toggleFavorite J m (toggleFavorite J m st))))
            = length (favorites (state st))"
    by (rule toggle_twice_same_length)
qed

theorem toggleFavorite_twice_witness:
  "faithful literalJSON
   \<and> reachable literalJSON twoFavorites
   \<and> distinct (map m_id (favorites (state twoFavorites)))
   \<and> length (favorites (state twoFavorites)) = 2
   \<and> length (favorites (state (toggleFavorite literalJSON (sampleMedicine 1)
        (toggleFavorite literalJSON (sampleMedicine 1) twoFavorites)))) = 2"
proof -
  have f: "faithful literalJSON" by (rule faithful_literalJSON)
  have r: "reachable literalJSON twoFavorites" by (rule reachable_twoFavorites)
  have l: "length (favorites (state twoFavorites)) = 2"
    by (simp add: twoFavorites_def freshStore_def initialState_def toggleFavorite_favorites)
  note t = toggleFavorite_twice[of literalJSON "sampleMedicine 1" twoFavorites]
  from t f r have d: "distinct (map m_id (favorites (state twoFavorites)))"
    and e: "length (favorites (state (toggleFavorite literalJSON (sampleMedicine 1)
        (toggleFavorite literalJSON (sampleMedicine 1) twoFavorites))))
          = length (favorites (state twoFavorites))"
    by blast+
  from f r d l e show ?thesis by simp
qed

section \<open>Frame of the store operations\<close>

text \<open>
  Claim C10. Each operation of the store changes its own collection only:
  \<open>addToHistory\<close> and \<open>clearHistory\<close> leave the favorites, reminders, doctors,
  consultations and prescriptions as they are, \<open>toggleFavorite\<close> leaves the search
  history and the reminders, and \<open>addReminder\<close>, \<open>updateReminder\<close> and
  \<open>deleteReminder\<close> leave the search history and the favorites. In each case the state
  afterwards is the state before with the one collection replaced.
\<close>

theorem store_frame:
  "favorites (state (addToHistory J m st)) = favorites (state st)
   \<and> reminders (state (addToHistory J m st)) = reminders (state st)
   \<and> doctors (state (addToHistory J m st)) = doctors (state st)
   \<and> consultations (state (addToHistory J m st)) = consultations (state st)
   \<and> prescriptions (state (addToHistory J m st)) = prescriptions (state st)
   \<and> favorites (state (clearHistory st)) = favorites (state st)
   \<and> reminders (state (clearHistory st)) = reminders (state st)
   \<and> doctors (state (clearHistory st)) = doctors (state st)
   \<and> consultations (state (clearHistory st)) = consultations (state st)
   \<and> prescriptions (state (clearHistory st)) = prescriptions (state st)
   \<and> searchHistory (state (toggleFavorite J m st)) = searchHistory (state st)
   \<and> reminders (state (toggleFavorite J m st)) = reminders (state st)
   \<and> searchHistory (state (addReminder J r st)) = searchHistory (state st)
   \<and> favorites (state (addReminder J r st)) = favorites (state st)
   \<and> searchHistory (state (updateReminder J i u st)) = searchHistory (state st)
   \<and> favorites (state (updateReminder J i u st)) = favorites (state st)
   \<and> searchHistory (state (deleteReminder J i st)) = searchHistory (state st)
   \<and> favorites (state (deleteReminder J i st)) = favorites (state st)
   \<and> state (addToHistory J m st)
       = (state st)\<lparr>searchHistory := searchHistory (state (addToHistory J m st))\<rparr>
   \<and> state (clearHistory st) = (state st)\<lparr>searchHistory := []\<rparr>
   \<and> state (toggleFavorite J m st)
       = (state st)\<lparr>favorites := favorites (state (toggleFavorite J m st))\<rparr>
   \<and> state (addReminder J r st) = (state st)\<lparr>reminders := reminders (state st) @ [r]\<rparr>
   \<and> state (updateReminder J i u st)
       = (state st)\<lparr>reminders := reminders (state (updateReminder J i u st))\<rparr>
   \<and> state (deleteReminder J i st)
       = (state st)\<lparr>reminders := reminders (state (deleteReminder J i st))\<rparr>"
  by (simp add: addToHistory_def clearHistory_def toggleFavorite_def addReminder_def
        updateReminder_def deleteReminder_def Let_def)

section \<open>The booking transaction\<close>

lemma findIndex_Some:
  "findIndex P xs = Some i \<Longrightarrow> i < length xs \<and> P (xs ! i)"
proof (induction xs arbitrary: i)
  case Nil
  then show ?case by simp
next
  case (Cons x xs)
  show ?case
  proof (cases "P x")
    case True
    with Cons.prems show ?thesis by simp
  next
    case False
    with Cons.prems obtain k where k: "findIndex P xs = Some k" "i = Suc k" by auto
    from Cons.IH[OF k(1)] k(2) show ?thesis by simp
  qed
qed

lemma findIndex_map_eq:
  "map f ys = map f xs \<Longrightarrow> findIndex (\<lambda>s. f s = t) ys = findIndex (\<lambda>s. f s = t) xs"
proof (induction xs arbitrary: ys)
  case Nil
  then show ?case by simp
next
  case (Cons x xs)
  then obtain y ys' where y: "ys = y # ys'" "f y = f x" "map f ys' = map f xs" by auto
  from Cons.IH[OF y(3)] y(1,2) show ?case by simp
qed

lemma map_startTime_update:
  "map startTime (sl[i := (sl ! i)\<lparr>isBooked := True, consultationId := c\<rparr>]) = map startTime sl"
proof (induction sl arbitrary: i)
  case Nil
  show ?case by simp
next
  case (Cons x xs)
  show ?case
  proof (cases i)
    case 0
    then show ?thesis by simp
  next
    case (Suc k)
    with Cons.IH[of k] show ?thesis by simp
  qed
qed

lemma bookConsultation_unfold:
  "bookConsultation ident now rf failure bd sel date db =
     (case runTransaction failure
                (bookingTransaction rf ident (newConsultation ident now bd) now bd sel date) db of
           (Inr u, db') \<Rightarrow> (Inr (newConsultation ident now bd), db')
         | (Inl msg, db') \<Rightarrow>
             (if msg = ''This slot has already been booked'' then (Inl msg, db')
              else (Inl ''Failed to book consultation. Please try again.'', db')))"
  unfolding bookConsultation_def newConsultation_def Let_def
  by (rule refl)

lemma serializable_newConsultation:
  "serializable (newConsultation ident now bd) \<longleftrightarrow> b_symptoms bd \<noteq> None \<and> b_notes bd \<noteq> None"
  by (simp add: serializable_def newConsultation_def)

lemma book_read_failed:
  "bookConsultation ident now (Some msg) failure bd sel date db
     = (if msg = ''This slot has already been booked'' then Inl msg
        else Inl ''Failed to book consultation. Please try again.'', db)"
  by (simp add: bookConsultation_unfold runTransaction_def bookingTransaction_def
        transaction_get_def)

lemma book_absent:
  "col_availability db (b_doctorId bd @ ''_'' @ date) = None \<Longrightarrow>
   bookConsultation ident now None failure bd sel date db
     = (Inl ''Failed to book consultation. Please try again.'', db)"
  by (simp add: bookConsultation_unfold runTransaction_def bookingTransaction_def
        transaction_get_def)

lemma book_notfound:
  "col_availability db (b_doctorId bd @ ''_'' @ date) = Some d \<Longrightarrow>
   findIndex (\<lambda>s. startTime s = startTime sel) (slotsOf d) = None \<Longrightarrow>
   bookConsultation ident now None failure bd sel date db
     = (Inl ''Failed to book consultation. Please try again.'', db)"
  by (simp add: bookConsultation_unfold runTransaction_def bookingTransaction_def
        transaction_get_def)

lemma book_booked:
  "col_availability db (b_doctorId bd @ ''_'' @ date) = Some d \<Longrightarrow>
   findIndex (\<lambda>s. startTime s = startTime sel) (slotsOf d) = Some i \<Longrightarrow>
   isBooked (slotsOf d ! i) \<Longrightarrow>
   bookConsultation ident now None failure bd sel date db
     = (Inl ''This slot has already been booked'', db)"
  by (simp add: bookConsultation_unfold runTransaction_def bookingTransaction_def
        transaction_get_def)

lemma book_undefined:
  "col_availability db (b_doctorId bd @ ''_'' @ date) = Some d \<Longrightarrow>
   findIndex (\<lambda>s. startTime s = startTime sel) (slotsOf d) = Some i \<Longrightarrow>
   \<not> isBooked (slotsOf d ! i) \<Longrightarrow>
   \<not> serializable (newConsultation ident now bd) \<Longrightarrow>
   bookConsultation ident now None failure bd sel date db
     = (Inl ''Failed to book consultation. Please try again.'', db)"
  by (simp add: bookConsultation_unfold runTransaction_def bookingTransaction_def
        transaction_get_def Let_def unsupportedUndefined_def)

lemma book_commit_failed:
  "col_availability db (b_doctorId bd @ ''_'' @ date) = Some d \<Longrightarrow>
   findIndex (\<lambda>s. startTime s = startTime sel) (slotsOf d) = Some i \<Longrightarrow>
   \<not> isBooked (slotsOf d ! i) \<Longrightarrow>
   serializable (newConsultation ident now bd) \<Longrightarrow>
   bookConsultation ident now None (Some msg) bd sel date db
     = (if msg = ''This slot has already been booked'' then Inl msg
        else Inl ''Failed to book consultation. Please try again.'', db)"
  by (simp add: bookConsultation_unfold runTransaction_def bookingTransaction_def
        transaction_get_def Let_def)

lemma book_committed:
  "col_availability db (b_doctorId bd @ ''_'' @ date) = Some d \<Longrightarrow>
   findIndex (\<lambda>s. startTime s = startTime sel) (slotsOf d) = Some i \<Longrightarrow>
   \<not> isBooked (slotsOf d ! i) \<Longrightarrow>
   serializable (newConsultation ident now bd) \<Longrightarrow>
   bookConsultation ident now None None bd sel date db
     = (Inr (newConsultation ident now bd),
        db\<lparr>col_availability := (col_availability db)(b_doctorId bd @ ''_'' @ date \<mapsto>
              d\<lparr>slots := Some ((slotsOf d)[i := (slotsOf d ! i)\<lparr>isBooked := True, consultationId := Some ident\<rparr>]),
                a_updatedAt := Some now\<rparr>),
            col_consultations := (col_consultations db)(ident \<mapsto> newConsultation ident now bd)\<rparr>)"
  by (simp add: bookConsultation_unfold runTransaction_def bookingTransaction_def
        transaction_get_def Let_def)

lemma book_cases [consumes 0, case_names read_failed absent notfound booked undefined_field
    commit_failed committed]:
  fixes db :: Firestore
  assumes "\<And>msg. rf = Some msg \<Longrightarrow> R"
    and "rf = None \<Longrightarrow> col_availability db (b_doctorId bd @ ''_'' @ date) = None \<Longrightarrow> R"
    and "\<And>d. rf = None \<Longrightarrow> col_availability db (b_doctorId bd @ ''_'' @ date) = Some d \<Longrightarrow>
           findIndex (\<lambda>s. startTime s = startTime sel) (slotsOf d) = None \<Longrightarrow> R"
    and "\<And>d i. rf = None \<Longrightarrow> col_availability db (b_doctorId bd @ ''_'' @ date) = Some d \<Longrightarrow>
           findIndex (\<lambda>s. startTime s = startTime sel) (slotsOf d) = Some i \<Longrightarrow>
           isBooked (slotsOf d ! i) \<Longrightarrow> R"
    and "\<And>d i. rf = None \<Longrightarrow> col_availability db (b_doctorId bd @ ''_'' @ date) = Some d \<Longrightarrow>
           findIndex (\<lambda>s. startTime s = startTime sel) (slotsOf d) = Some i \<Longrightarrow>
           \<not> isBooked (slotsOf d ! i) \<Longrightarrow>
           \<not> serializable (newConsultation ident now bd) \<Longrightarrow> R"
    and "\<And>d i msg. rf = None \<Longrightarrow> col_availability db (b_doctorId bd @ ''_'' @ date) = Some d \<Longrightarrow>
           findIndex (\<lambda>s. startTime s = startTime sel) (slotsOf d) = Some i \<Longrightarrow>
           \<not> isBooked (slotsOf d ! i) \<Longrightarrow>
           serializable (newConsultation ident now bd) \<Longrightarrow> failure = Some msg \<Longrightarrow> R"
    and "\<And>d i. rf = None \<Longrightarrow> col_availability db (b_doctorId bd @ ''_'' @ date) = Some d \<Longrightarrow>
           findIndex (\<lambda>s. startTime s = startTime sel) (slotsOf d) = Some i \<Longrightarrow>
           \<not> isBooked (slotsOf d ! i) \<Longrightarrow>
           serializable (newConsultation ident now bd) \<Longrightarrow> failure = None \<Longrightarrow> R"
  shows R
proof (cases rf)
  case (Some msg)
  then show ?thesis by (rule assms(1))
next
  case rf: None
  show ?thesis
  proof (cases "col_availability db (b_doctorId bd @ ''_'' @ date)")
    case None
    with rf show ?thesis by (rule assms(2))
  next
    case d: (Some d)
    show ?thesis
    proof (cases "findIndex (\<lambda>s. startTime s = startTime sel) (slotsOf d)")
      case None
      with rf d show ?thesis by (rule assms(3))
    next
      case i: (Some i)
      show ?thesis
      proof (cases "isBooked (slotsOf d ! i)")
        case True
        with rf d i show ?thesis by (rule assms(4))
      next
        case nb: False
        show ?thesis
        proof (cases "serializable (newConsultation ident now bd)")
          case False
          with rf d i nb show ?thesis by (rule assms(5))
        next
          case ser: True
          show ?thesis
          proof (cases failure)
            case None
            with rf d i nb ser show ?thesis by (rule assms(7))
          next
            case (Some msg)
            with rf d i nb ser show ?thesis by (rule assms(6))
          qed
        qed
      qed
    qed
  qed
qed


lemma requestedSlot_after_update:
  assumes "findIndex (\<lambda>s. startTime s = t) sl = Some i"
  shows "findIndex (\<lambda>s. startTime s = t)
           (sl[i := (sl ! i)\<lparr>isBooked := True, consultationId := c\<rparr>]) = Some i"
  using assms findIndex_map_eq[OF map_startTime_update, of t sl i c] by simp

lemma slotsOf_update [simp]: "slotsOf (d\<lparr>slots := Some sl, a_updatedAt := u\<rparr>) = sl"
  by (simp add: slotsOf_def)

lemma book_success_slot:
  assumes "fst (bookConsultation ident now rf failure bd sel date db) = Inr c"
  shows "\<exists>s. requestedSlot db (b_doctorId bd @ ''_'' @ date) (startTime sel) = Some s
           \<and> \<not> isBooked s
           \<and> requestedSlot (snd (bookConsultation ident now rf failure bd sel date db))
                 (b_doctorId bd @ ''_'' @ date) (startTime sel)
               = Some (s\<lparr>isBooked := True, consultationId := Some ident\<rparr>)
           \<and> col_consultations (snd (bookConsultation ident now rf failure bd sel date db)) ident = Some c
           \<and> c = newConsultation ident now bd \<and> failure = None"
proof (cases rule: book_cases[where db=db and bd=bd and date=date and sel=sel and failure=failure and rf=rf
      and ident=ident and now=now])
  case (read_failed msg)
  with assms show ?thesis by (simp add: book_read_failed split: if_splits)
next
  case absent
  with assms show ?thesis by (simp add: book_absent)
next
  case (notfound d)
  with assms show ?thesis by (simp add: book_notfound)
next
  case (booked d i)
  with assms show ?thesis by (simp add: book_booked)
next
  case (undefined_field d i)
  with assms show ?thesis by (simp add: book_undefined)
next
  case (commit_failed d i msg)
  with assms show ?thesis by (simp add: book_commit_failed split: if_splits)
next
  case (committed d i)
  from findIndex_Some[OF committed(3)] have il: "i < length (slotsOf d)" by simp
  from committed assms il show ?thesis
    by (simp add: book_committed requestedSlot_def requestedSlot_after_update)
qed

lemma book_booked_fails:
  assumes "slotBooked db (b_doctorId bd @ ''_'' @ date) (startTime sel)"
  shows "bookConsultation ident now None failure bd sel date db
           = (Inl ''This slot has already been booked'', db)"
  using assms
  by (auto simp: slotBooked_def requestedSlot_def book_booked split: option.splits)

lemma slotBooked_persists:
  assumes "slotBooked db k t"
  shows "slotBooked (snd (bookConsultation ident now rf failure bd sel date db)) k t"
proof (cases rule: book_cases[where db=db and bd=bd and date=date and sel=sel and failure=failure and rf=rf
      and ident=ident and now=now])
  case (read_failed msg)
  with assms show ?thesis by (simp add: book_read_failed)
next
  case absent
  with assms show ?thesis by (simp add: book_absent)
next
  case (notfound d)
  with assms show ?thesis by (simp add: book_notfound)
next
  case (booked d i)
  with assms show ?thesis by (simp add: book_booked)
next
  case (undefined_field d i)
  with assms show ?thesis by (simp add: book_undefined)
next
  case (commit_failed d i msg)
  with assms show ?thesis by (simp add: book_commit_failed)
next
  case (committed d i)
  let ?sl = "slotsOf d"
  let ?sl' = "?sl[i := (?sl ! i)\<lparr>isBooked := True, consultationId := Some ident\<rparr>]"
  show ?thesis
  proof (cases "k = b_doctorId bd @ ''_'' @ date")
    case False
    with assms committed show ?thesis
      by (simp add: book_committed slotBooked_def requestedSlot_def)
  next
    case True
    from assms True committed(2) obtain j where
      j: "findIndex (\<lambda>s. startTime s = t) ?sl = Some j" "isBooked (?sl ! j)"
      by (auto simp: slotBooked_def requestedSlot_def split: option.splits)
    have f: "findIndex (\<lambda>s. startTime s = t) ?sl' = Some j"
      using j(1) findIndex_map_eq[OF map_startTime_update, of t ?sl i "Some ident"] by simp
    from findIndex_Some[OF j(1)] have jl: "j < length ?sl" by simp
    have "isBooked (?sl' ! j)"
      using j(2) jl by (cases "j = i") simp_all
    with f True committed show ?thesis
      by (simp add: book_committed slotBooked_def requestedSlot_def)
  qed
qed





lemma attempts_Cons:
  "attempts (a # as) db = (fst (attempt a db) # fst (attempts as (snd (attempt a db))),
                            snd (attempts as (snd (attempt a db))))"
  by (simp split: prod.splits)

declare attempts.simps(2) [simp del]


lemma slotBooked_attempts:
  "slotBooked db k t \<Longrightarrow> slotBooked (snd (attempts as db)) k t"
proof (induction as arbitrary: db)
  case Nil
  then show ?case by simp
next
  case (Cons a as)
  from Cons.prems have "slotBooked (snd (attempt a db)) k t"
    unfolding attempt_def by (rule slotBooked_persists)
  from Cons.IH[OF this] show ?case by (simp add: attempts_Cons)
qed









lemma attemptA_sample:
  "attempt attemptA sampleDb =
     (Inr (newConsultation ''c1'' 1764300000000 (sampleBooking ''A'')),
      sampleDb\<lparr>col_availability := [''D_2025-11-29'' \<mapsto>
           (sampleAvailability
             [\<lparr>startTime = ''09:00'', endTime = ''09:30'', isBooked = True,
               consultationId = Some ''c1''\<rparr>, slot0930])\<lparr>a_updatedAt := Some 1764300000000\<rparr>],
         col_consultations := [''c1'' \<mapsto> newConsultation ''c1'' 1764300000000 (sampleBooking ''A'')]\<rparr>)"
  by (simp add: attempt_def attemptA_def sampleDb_def sampleBooking_def sampleAvailability_def
        slot0900_def slot0930_def bookConsultation_unfold runTransaction_def bookingTransaction_def
        transaction_get_def serializable_def newConsultation_def slotsOf_def Let_def)




lemma bookedDb_eq:
  "bookedDb =
     sampleDb\<lparr>col_availability := [''D_2025-11-29'' \<mapsto>
           (sampleAvailability
             [\<lparr>startTime = ''09:00'', endTime = ''09:30'', isBooked = True,
               consultationId = Some ''c1''\<rparr>, slot0930])\<lparr>a_updatedAt := Some 1764300000000\<rparr>],
         col_consultations := [''c1'' \<mapsto> newConsultation ''c1'' 1764300000000 (sampleBooking ''A'')]\<rparr>"
  by (simp add: bookedDb_def attemptA_sample)

lemma slotBooked_bookedDb: "slotBooked bookedDb ''D_2025-11-29'' ''09:00''"
  by (simp add: slotBooked_def requestedSlot_def bookedDb_eq sampleAvailability_def slotsOf_def)







text \<open>
  Claim C3, amended. A failing run of \<open>bookConsultation\<close> surfaces the error of the
  guard, passed on as it is, exactly when the transaction read the availability record
  and found the requested slot booked already. In every other failure it surfaces the
  one generic error: when the read of the record fails, whether the slot is booked or
  not, when there is no record or no slot with the start time, and when the write or
  the commit fails. (The errors of the Firestore client are taken not to carry the text
  of the guard's error.)
\<close>

theorem booking_error_surfaced:
  "(rf = None \<and> slotBooked db (b_doctorId bd @ ''_'' @ date) (startTime sel) \<longrightarrow>
      fst (bookConsultation ident now rf failure bd sel date db)
        = Inl ''This slot has already been booked'')
   \<and> (rf = None \<and> requestedSlot db (b_doctorId bd @ ''_'' @ date) (startTime sel) = None \<longrightarrow>
      fst (bookConsultation ident now rf failure bd sel date db)
        = Inl ''Failed to book consultation. Please try again.'')
   \<and> (rf = Some msg \<and> msg \<noteq> ''This slot has already been booked'' \<longrightarrow>
      fst (bookConsultation ident now rf failure bd sel date db)
        = Inl ''Failed to book consultation. Please try again.'')
   \<and> (fst (bookConsultation ident now rf failure bd sel date db) = Inl e
        \<and> rf \<noteq> Some ''This slot has already been booked''
        \<and> failure \<noteq> Some ''This slot has already been booked'' \<longrightarrow>
      e = (if rf = None \<and> slotBooked db (b_doctorId bd @ ''_'' @ date) (startTime sel)
           then ''This slot has already been booked''
           else ''Failed to book consultation. Please try again.''))"
proof (intro conjI impI)
  assume "rf = None \<and> slotBooked db (b_doctorId bd @ ''_'' @ date) (startTime sel)"
  then show "fst (bookConsultation ident now rf failure bd sel date db)
        = Inl ''This slot has already been booked''"
    by (simp add: book_booked_fails)
next
  assume "rf = None \<and> requestedSlot db (b_doctorId bd @ ''_'' @ date) (startTime sel) = None"
  then show "fst (bookConsultation ident now rf failure bd sel date db)
        = Inl ''Failed to book consultation. Please try again.''"
    by (cases rule: book_cases[where db=db and bd=bd and date=date and sel=sel
          and failure=failure and rf=rf and ident=ident and now=now])
       (simp_all add: requestedSlot_def book_absent book_notfound)
next
  assume "rf = Some msg \<and> msg \<noteq> ''This slot has already been booked''"
  then show "fst (bookConsultation ident now rf failure bd sel date db)
        = Inl ''Failed to book consultation. Please try again.''"
    by (simp add: book_read_failed)
next
  assume a: "fst (bookConsultation ident now rf failure bd sel date db) = Inl e
        \<and> rf \<noteq> Some ''This slot has already been booked''
        \<and> failure \<noteq> Some ''This slot has already been booked''"
  show "e = (if rf = None \<and> slotBooked db (b_doctorId bd @ ''_'' @ date) (startTime sel)
           then ''This slot has already been booked''
           else ''Failed to book consultation. Please try again.'')"
  proof (cases rule: book_cases[where db=db and bd=bd and date=date and sel=sel
        and failure=failure and rf=rf and ident=ident and now=now])
    case (read_failed msg)
    with a show ?thesis by (auto simp: book_read_failed)
  next
    case absent
    with a show ?thesis by (auto simp: book_absent slotBooked_def requestedSlot_def)
  next
    case (notfound d)
    with a show ?thesis by (auto simp: book_notfound slotBooked_def requestedSlot_def)
  next
    case (booked d i)
    with a show ?thesis by (auto simp: book_booked slotBooked_def requestedSlot_def)
  next
    case (undefined_field d i)
    with a show ?thesis by (auto simp: book_undefined slotBooked_def requestedSlot_def)
  next
    case (commit_failed d i msg)
    with a show ?thesis by (auto simp: book_commit_failed slotBooked_def requestedSlot_def)
  next
    case (committed d i)
    with a show ?thesis by (simp add: book_committed)
  qed
qed

theorem booking_error_surfaced_witness:
  "slotBooked bookedDb (b_doctorId (sampleBooking ''B'') @ ''_'' @ ''2025-11-29'') (startTime slot0900)
   \<and> fst (bookConsultation ''c2'' 1764300000001 None None (sampleBooking ''B'') slot0900
            ''2025-11-29'' bookedDb) = Inl ''This slot has already been booked''
   \<and> requestedSlot sampleDb (b_doctorId (sampleBooking ''B'') @ ''_'' @ ''2099-01-01'')
        (startTime slot0900) = None
   \<and> fst (bookConsultation ''c2'' 1764300000001 None None (sampleBooking ''B'') slot0900
            ''2099-01-01'' sampleDb) = Inl ''Failed to book consultation. Please try again.''
   \<and> ''[firestore/unavailable]'' \<noteq> ''This slot has already been booked''
   \<and> fst (bookConsultation ''c2'' 1764300000001 (Some ''[firestore/unavailable]'') None
            (sampleBooking ''B'') slot0900 ''2025-11-29'' bookedDb)
        = Inl ''Failed to book consultation. Please try again.''
   \<and> ''Failed to book consultation. Please try again.''
       = (if (None :: string option) = None
             \<and> slotBooked sampleDb (b_doctorId (sampleBooking ''B'') @ ''_'' @ ''2099-01-01'')
                  (startTime slot0900)
          then ''This slot has already been booked''
          else ''Failed to book consultation. Please try again.'')"
proof -
  let ?k = "b_doctorId (sampleBooking ''B'') @ ''_'' @ ''2025-11-29''"
  let ?k' = "b_doctorId (sampleBooking ''B'') @ ''_'' @ ''2099-01-01''"
  let ?guard = "''This slot has already been booked''"
  let ?generic = "''Failed to book consultation. Please try again.''"
  have b: "slotBooked bookedDb ?k (startTime slot0900)"
    using slotBooked_bookedDb by (simp add: sampleBooking_def slot0900_def)
  have n: "requestedSlot sampleDb ?k' (startTime slot0900) = None"
    by (simp add: requestedSlot_def sampleDb_def sampleBooking_def)
  have m: "''[firestore/unavailable]'' \<noteq> ?guard" by simp
  note t1 = booking_error_surfaced[of None bookedDb "sampleBooking ''B''" "''2025-11-29''"
      slot0900 "''c2''" 1764300000001 None "''x''" ?guard]
  note t2 = booking_error_surfaced[of None sampleDb "sampleBooking ''B''" "''2099-01-01''"
      slot0900 "''c2''" 1764300000001 None "''x''" ?generic]
  note t3 = booking_error_surfaced[of "Some ''[firestore/unavailable]''" bookedDb
      "sampleBooking ''B''" "''2025-11-29''" slot0900 "''c2''" 1764300000001 None
      "''[firestore/unavailable]''" ?generic]
  from t1 b have 1: "fst (bookConsultation ''c2'' 1764300000001 None None (sampleBooking ''B'')
      slot0900 ''2025-11-29'' bookedDb) = Inl ?guard"
    by blast
  from t2 n have 2: "fst (bookConsultation ''c2'' 1764300000001 None None (sampleBooking ''B'')
      slot0900 ''2099-01-01'' sampleDb) = Inl ?generic"
    by blast
  from t3 m have 3: "fst (bookConsultation ''c2'' 1764300000001 (Some ''[firestore/unavailable]'')
      None (sampleBooking ''B'') slot0900 ''2025-11-29'' bookedDb) = Inl ?generic"
    by blast
  have 4: "(None :: string option) \<noteq> Some ?guard" by simp
  from t2 2 4 have 5: "?generic
       = (if (None :: string option) = None \<and> slotBooked sampleDb ?k' (startTime slot0900)
          then ?guard else ?generic)"
    by blast
  from b 1 n 2 m 3 5 show ?thesis by blast
qed

text \<open>
  The claim as stated has the guard's error whenever the requested slot was booked
  already. When the read of the availability record fails, the run fails with the
  generic error although the slot is booked.
\<close>

theorem booking_error_surfaced_counterexample:
  "slotBooked bookedDb (b_doctorId (sampleBooking ''B'') @ ''_'' @ ''2025-11-29'') (startTime slot0900)
   \<and> fst (bookConsultation ''c2'' 1764300000001 (Some ''[firestore/unavailable]'') None
            (sampleBooking ''B'') slot0900 ''2025-11-29'' bookedDb)
        = Inl ''Failed to book consultation. Please try again.''"
proof -
  have "slotBooked bookedDb (b_doctorId (sampleBooking ''B'') @ ''_'' @ ''2025-11-29'')
      (startTime slot0900)"
    using slotBooked_bookedDb by (simp add: sampleBooking_def slot0900_def)
  then show ?thesis by (simp add: book_read_failed)
qed

text \<open>
  Claim C4. A successful run of \<open>bookConsultation\<close> returns a consultation with the
  generated identifier, the status \<^verbatim>\<open>scheduled\<close>, the duration 30, the channel name
  \<^verbatim>\<open>consultation_\<close> followed by its identifier, and the patient, doctor, fee, scheduled
  time, symptoms and notes of the booking data. Afterwards the requested slot of the
  availability record is booked and carries that identifier, and the consultation is
  stored under it.
\<close>

theorem booking_result:
  "fst (bookConsultation ident now rf failure bd sel date db) = Inr c \<Longrightarrow>
     c_id c = ident
     \<and> c_status c = Scheduled
     \<and> c_duration c = 30
     \<and> c_agoraChannelName c = ''consultation_'' @ c_id c
     \<and> c_patientId c = b_patientId bd
     \<and> c_patientName c = b_patientName bd
     \<and> c_doctorId c = b_doctorId bd
     \<and> c_doctorName c = b_doctorName bd
     \<and> c_doctorSpecialization c = b_doctorSpecialization bd
     \<and> c_consultationFee c = b_consultationFee bd
     \<and> c_scheduledTime c = b_scheduledTime bd
     \<and> c_symptoms c = b_symptoms bd
     \<and> c_notes c = b_notes bd
     \<and> (\<exists>s. requestedSlot (snd (bookConsultation ident now rf failure bd sel date db))
                (b_doctorId bd @ ''_'' @ date) (startTime sel) = Some s
              \<and> startTime s = startTime sel \<and> isBooked s \<and> consultationId s = Some (c_id c))
     \<and> col_consultations (snd (bookConsultation ident now rf failure bd sel date db)) (c_id c) = Some c"
proof -
  assume a: "fst (bookConsultation ident now rf failure bd sel date db) = Inr c"
  from book_success_slot[OF a] obtain s where
    s: "requestedSlot db (b_doctorId bd @ ''_'' @ date) (startTime sel) = Some s"
       "requestedSlot (snd (bookConsultation ident now rf failure bd sel date db))
           (b_doctorId bd @ ''_'' @ date) (startTime sel)
         = Some (s\<lparr>isBooked := True, consultationId := Some ident\<rparr>)"
    and cc: "col_consultations (snd (bookConsultation ident now rf failure bd sel date db)) ident = Some c"
    and c: "c = newConsultation ident now bd"
    by blast
  from s(1) have st: "startTime s = startTime sel"
    by (auto simp: requestedSlot_def split: option.splits dest: findIndex_Some)
  have fields: "c_id c = ident" "c_status c = Scheduled" "c_duration c = 30"
    "c_agoraChannelName c = ''consultation_'' @ c_id c"
    "c_patientId c = b_patientId bd" "c_patientName c = b_patientName bd"
    "c_doctorId c = b_doctorId bd" "c_doctorName c = b_doctorName bd"
    "c_doctorSpecialization c = b_doctorSpecialization bd"
    "c_consultationFee c = b_consultationFee bd" "c_scheduledTime c = b_scheduledTime bd"
    "c_symptoms c = b_symptoms bd" "c_notes c = b_notes bd"
    by (simp_all add: c newConsultation_def)
  have slot: "\<exists>s. requestedSlot (snd (bookConsultation ident now rf failure bd sel date db))
                (b_doctorId bd @ ''_'' @ date) (startTime sel) = Some s
              \<and> startTime s = startTime sel \<and> isBooked s \<and> consultationId s = Some (c_id c)"
    using s(2) st fields(1) by simp
  from fields slot cc show ?thesis by simp
qed

theorem booking_result_witness:
  "fst (bookConsultation ''c1'' 1764300000000 None None (sampleBooking ''A'') slot0900 ''2025-11-29''
          sampleDb) = Inr (newConsultation ''c1'' 1764300000000 (sampleBooking ''A''))
   \<and> c_status (newConsultation ''c1'' 1764300000000 (sampleBooking ''A'')) = Scheduled
   \<and> c_duration (newConsultation ''c1'' 1764300000000 (sampleBooking ''A'')) = 30
   \<and> c_agoraChannelName (newConsultation ''c1'' 1764300000000 (sampleBooking ''A''))
        = ''consultation_c1''
   \<and> col_consultations (snd (bookConsultation ''c1'' 1764300000000 None None (sampleBooking ''A'')
          slot0900 ''2025-11-29'' sampleDb)) ''c1''
        = Some (newConsultation ''c1'' 1764300000000 (sampleBooking ''A''))"
proof -
  let ?c = "newConsultation ''c1'' 1764300000000 (sampleBooking ''A'')"
  have g: "fst (bookConsultation ''c1'' 1764300000000 None None (sampleBooking ''A'') slot0900
      ''2025-11-29'' sampleDb) = Inr ?c"
    using attemptA_sample by (simp add: attempt_def attemptA_def)
  have i: "c_id ?c = ''c1''" by (simp add: newConsultation_def)
  from booking_result[OF g] i g show ?thesis by simp
qed

section \<open>Hydration\<close>

lemma parseOr_missing [simp]: "parseOr p d None = Some d" "parseOr p d (Some []) = Some d"
  by (simp_all add: parseOr_def)

lemma parseOr_present: "s \<noteq> [] \<Longrightarrow> parseOr p d (Some s) = p s"
  by (simp add: parseOr_def)

lemma hydrate_try_loaded:
  assumes "getItem disk ''theme'' = Some theme" "getItem disk ''searchHistory'' = Some history"
    "getItem disk ''favorites'' = Some favs" "getItem disk ''reminders'' = Some rems"
    "getItem disk ''currentUser'' = Some user" "getItem disk ''doctors'' = Some docs"
    "getItem disk ''consultations'' = Some cons" "getItem disk ''prescriptions'' = Some pres"
    "parseOr (parse_bool J) False theme = Some v1"
    "parseOr (parse_medicines J) [] history = Some v2"
    "parseOr (parse_medicines J) [] favs = Some v3"
    "parseOr (parse_reminders J) [] rems = Some v4"
    "parseOr (parse_user J) None user = Some v5"
    "parseOr (parse_doctors J) [] docs = Some v6"
    "parseOr (parse_consultations J) [] cons = Some v7"
    "parseOr (parse_prescriptions J) [] pres = Some v8"
  shows "hydrate_try J disk s
     = Some (s\<lparr>isDarkMode := v1, searchHistory := v2, favorites := v3, reminders := v4,
             currentUser := v5, doctors := v6, consultations := v7, prescriptions := v8\<rparr>)"
  using assms by (simp add: hydrate_try_def)

lemma hydrate_try_rejected:
  assumes "k \<in> {''theme'', ''searchHistory'', ''favorites'', ''reminders'', ''currentUser'',
                ''doctors'', ''consultations'', ''prescriptions''}"
    "getItem disk k = None"
  shows "hydrate_try J disk s = None"
  using assms by (auto simp: hydrate_try_def split: Option.bind_splits)

lemma hydrate_try_unparsable:
  assumes "v \<noteq> []"
    "getItem disk ''theme'' = Some (Some v) \<and> parse_bool J v = None
     \<or> getItem disk ''searchHistory'' = Some (Some v) \<and> parse_medicines J v = None
     \<or> getItem disk ''favorites'' = Some (Some v) \<and> parse_medicines J v = None
     \<or> getItem disk ''reminders'' = Some (Some v) \<and> parse_reminders J v = None
     \<or> getItem disk ''currentUser'' = Some (Some v) \<and> parse_user J v = None
     \<or> getItem disk ''doctors'' = Some (Some v) \<and> parse_doctors J v = None
     \<or> getItem disk ''consultations'' = Some (Some v) \<and> parse_consultations J v = None
     \<or> getItem disk ''prescriptions'' = Some (Some v) \<and> parse_prescriptions J v = None"
  shows "hydrate_try J disk s = None"
  using assms by (auto simp: hydrate_try_def parseOr_present split: Option.bind_splits)

lemma hydrate_unchanged: "hydrate_try J (asyncStorage st) (state st) = None \<Longrightarrow> hydrate J st = Some st"
  by (simp add: hydrate_def)

lemma getItem_themeStore:
  "getItem (asyncStorage themeStore) k = Some (if k = ''theme'' then Some ''true'' else None)"
  by (simp add: getItem_def themeStore_def)

lemma getItem_corruptStore:
  "getItem (asyncStorage corruptStore) k
     = Some (if k = ''favorites'' then Some ''{'' else if k = ''theme'' then Some ''true'' else None)"
  by (simp add: getItem_def corruptStore_def)

text \<open>
  Claim C7, amended. \<open>hydrate\<close> never rejects. When every read resolves and every
  value that is present deserializes, each collection is loaded from its key, and a key
  that is missing (or empty) gets its default while the others are loaded: missing
  favorites give the empty sequence. When the read of any of the eight keys rejects, or
  the value of any of the eight keys is present and fails to deserialize (the favorites
  value, say), nothing is loaded at all: the state is left exactly as it was, the
  favorites and every other collection with it.
\<close>

theorem hydrate_resilience:
  "(\<exists>st'. hydrate J st = Some st')
   \<and> (getItem (asyncStorage st) ''theme'' = Some theme
        \<and> getItem (asyncStorage st) ''searchHistory'' = Some history
        \<and> getItem (asyncStorage st) ''favorites'' = Some favs
        \<and> getItem (asyncStorage st) ''reminders'' = Some rems
        \<and> getItem (asyncStorage st) ''currentUser'' = Some user
        \<and> getItem (asyncStorage st) ''doctors'' = Some docs
        \<and> getItem (asyncStorage st) ''consultations'' = Some cons
        \<and> getItem (asyncStorage st) ''prescriptions'' = Some pres
        \<and> parseOr (parse_bool J) False theme = Some v1
        \<and> parseOr (parse_medicines J) [] history = Some v2
        \<and> parseOr (parse_medicines J) [] favs = Some v3
        \<and> parseOr (parse_reminders J) [] rems = Some v4
        \<and> parseOr (parse_user J) None user = Some v5
        \<and> parseOr (parse_doctors J) [] docs = Some v6
        \<and> parseOr (parse_consultations J) [] cons = Some v7
        \<and> parseOr (parse_prescriptions J) [] pres = Some v8
      \<longrightarrow> hydrate J st
            = Some (st\<lparr>state := (state st)\<lparr>isDarkMode := v1, searchHistory := v2,
                  favorites := v3, reminders := v4, currentUser := v5, doctors := v6,
                  consultations := v7, prescriptions := v8\<rparr>\<rparr>)
          \<and> (favs = None \<or> favs = Some [] \<longrightarrow> v3 = []))
   \<and> (v \<noteq> []
        \<and> (getItem (asyncStorage st) ''theme'' = Some (Some v) \<and> parse_bool J v = None
           \<or> getItem (asyncStorage st) ''searchHistory'' = Some (Some v)
                \<and> parse_medicines J v = None
           \<or> getItem (asyncStorage st) ''favorites'' = Some (Some v)
                \<and> parse_medicines J v = None
           \<or> getItem (asyncStorage st) ''reminders'' = Some (Some v)
                \<and> parse_reminders J v = None
           \<or> getItem (asyncStorage st) ''currentUser'' = Some (Some v)
                \<and> parse_user J v = None
           \<or> getItem (asyncStorage st) ''doctors'' = Some (Some v)
                \<and> parse_doctors J v = None
           \<or> getItem (asyncStorage st) ''consultations'' = Some (Some v)
                \<and> parse_consultations J v = None
           \<or> getItem (asyncStorage st) ''prescriptions'' = Some (Some v)
                \<and> parse_prescriptions J v = None)
      \<longrightarrow> hydrate J st = Some st)
   \<and> (k \<in> {''theme'', ''searchHistory'', ''favorites'', ''reminders'', ''currentUser'',
              ''doctors'', ''consultations'', ''prescriptions''}
        \<and> getItem (asyncStorage st) k = None
      \<longrightarrow> hydrate J st = Some st)"
proof (intro conjI impI)
  show "\<exists>st'. hydrate J st = Some st'"
    by (cases "hydrate_try J (asyncStorage st) (state st)") (simp_all add: hydrate_def)
next
  assume a: "getItem (asyncStorage st) ''theme'' = Some theme
        \<and> getItem (asyncStorage st) ''searchHistory'' = Some history
        \<and> getItem (asyncStorage st) ''favorites'' = Some favs
        \<and> getItem (asyncStorage st) ''reminders'' = Some rems
        \<and> getItem (asyncStorage st) ''currentUser'' = Some user
        \<and> getItem (asyncStorage st) ''doctors'' = Some docs
        \<and> getItem (asyncStorage st) ''consultations'' = Some cons
        \<and> getItem (asyncStorage st) ''prescriptions'' = Some pres
        \<and> parseOr (parse_bool J) False theme = Some v1
        \<and> parseOr (parse_medicines J) [] history = Some v2
        \<and> parseOr (parse_medicines J) [] favs = Some v3
        \<and> parseOr (parse_reminders J) [] rems = Some v4
        \<and> parseOr (parse_user J) None user = Some v5
        \<and> parseOr (parse_doctors J) [] docs = Some v6
        \<and> parseOr (parse_consultations J) [] cons = Some v7
        \<and> parseOr (parse_prescriptions J) [] pres = Some v8"
  then have "hydrate_try J (asyncStorage st) (state st)
     = Some ((state st)\<lparr>isDarkMode := v1, searchHistory := v2, favorites := v3, reminders := v4,
             currentUser := v5, doctors := v6, consultations := v7, prescriptions := v8\<rparr>)"
    by (simp add: hydrate_try_def)
  then show "hydrate J st
            = Some (st\<lparr>state := (state st)\<lparr>isDarkMode := v1, searchHistory := v2,
                  favorites := v3, reminders := v4, currentUser := v5, doctors := v6,
                  consultations := v7, prescriptions := v8\<rparr>\<rparr>)"
    by (simp add: hydrate_def)
  show "v3 = []" if "favs = None \<or> favs = Some []"
    using that a by auto
next
  assume a: "v \<noteq> []
        \<and> (getItem (asyncStorage st) ''theme'' = Some (Some v) \<and> parse_bool J v = None
           \<or> getItem (asyncStorage st) ''searchHistory'' = Some (Some v)
                \<and> parse_medicines J v = None
           \<or> getItem (asyncStorage st) ''favorites'' = Some (Some v)
                \<and> parse_medicines J v = None
           \<or> getItem (asyncStorage st) ''reminders'' = Some (Some v)
                \<and> parse_reminders J v = None
           \<or> getItem (asyncStorage st) ''currentUser'' = Some (Some v)
                \<and> parse_user J v = None
           \<or> getItem (asyncStorage st) ''doctors'' = Some (Some v)
                \<and> parse_doctors J v = None
           \<or> getItem (asyncStorage st) ''consultations'' = Some (Some v)
                \<and> parse_consultations J v = None
           \<or> getItem (asyncStorage st) ''prescriptions'' = Some (Some v)
                \<and> parse_prescriptions J v = None)"
  from a have a1: "v \<noteq> []" by (rule conjunct1)
  from a have a2: "getItem (asyncStorage st) ''theme'' = Some (Some v) \<and> parse_bool J v = None
           \<or> getItem (asyncStorage st) ''searchHistory'' = Some (Some v)
                \<and> parse_medicines J v = None
           \<or> getItem (asyncStorage st) ''favorites'' = Some (Some v)
                \<and> parse_medicines J v = None
           \<or> getItem (asyncStorage st) ''reminders'' = Some (Some v)
                \<and> parse_reminders J v = None
           \<or> getItem (asyncStorage st) ''currentUser'' = Some (Some v)
                \<and> parse_user J v = None
           \<or> getItem (asyncStorage st) ''doctors'' = Some (Some v)
                \<and> parse_doctors J v = None
           \<or> getItem (asyncStorage st) ''consultations'' = Some (Some v)
                \<and> parse_consultations J v = None
           \<or> getItem (asyncStorage st) ''prescriptions'' = Some (Some v)
                \<and> parse_prescriptions J v = None"
    by (rule conjunct2)
  have "hydrate_try J (asyncStorage st) (state st) = None"
    using a1 a2 by (rule hydrate_try_unparsable)
  then show "hydrate J st = Some st" by (rule hydrate_unchanged)
next
  assume a: "k \<in> {''theme'', ''searchHistory'', ''favorites'', ''reminders'', ''currentUser'',
              ''doctors'', ''consultations'', ''prescriptions''}
        \<and> getItem (asyncStorage st) k = None"
  from a have a1: "k \<in> {''theme'', ''searchHistory'', ''favorites'', ''reminders'',
      ''currentUser'', ''doctors'', ''consultations'', ''prescriptions''}" by (rule conjunct1)
  from a have a2: "getItem (asyncStorage st) k = None" by (rule conjunct2)
  have "hydrate_try J (asyncStorage st) (state st) = None"
    using a1 a2 by (rule hydrate_try_rejected)
  then show "hydrate J st = Some st" by (rule hydrate_unchanged)
qed

theorem hydrate_resilience_witness:
  "getItem (asyncStorage themeStore) ''theme'' = Some (Some ''true'')
   \<and> getItem (asyncStorage themeStore) ''favorites'' = Some None
   \<and> parseOr (parse_bool literalJSON) False (Some ''true'') = Some True
   \<and> hydrate literalJSON themeStore
       = Some (themeStore\<lparr>state := (state themeStore)\<lparr>isDarkMode := True, searchHistory := [],
                  favorites := [], reminders := [], currentUser := None, doctors := [],
                  consultations := [], prescriptions := []\<rparr>\<rparr>)
   \<and> getItem (asyncStorage corruptStore) ''favorites'' = Some (Some ''{'')
   \<and> ''{'' \<noteq> []
   \<and> parse_medicines literalJSON ''{'' = None
   \<and> hydrate literalJSON corruptStore = Some corruptStore
   \<and> getItem (asyncStorage unparsableThemeStore) ''theme'' = Some (Some ''yes'')
   \<and> ''yes'' \<noteq> []
   \<and> parse_bool literalJSON ''yes'' = None
   \<and> hydrate literalJSON unparsableThemeStore = Some unparsableThemeStore"
proof -
  have p: "parseOr (parse_bool literalJSON) False (Some ''true'') = Some True"
    by (simp add: parseOr_def literalJSON_def)
  have h: "getItem (asyncStorage themeStore) ''theme'' = Some (Some ''true'')
        \<and> getItem (asyncStorage themeStore) ''searchHistory'' = Some None
        \<and> getItem (asyncStorage themeStore) ''favorites'' = Some None
        \<and> getItem (asyncStorage themeStore) ''reminders'' = Some None
        \<and> getItem (asyncStorage themeStore) ''currentUser'' = Some None
        \<and> getItem (asyncStorage themeStore) ''doctors'' = Some None
        \<and> getItem (asyncStorage themeStore) ''consultations'' = Some None
        \<and> getItem (asyncStorage themeStore) ''prescriptions'' = Some None
        \<and> parseOr (parse_bool literalJSON) False (Some ''true'') = Some True
        \<and> parseOr (parse_medicines literalJSON) [] None = Some []
        \<and> parseOr (parse_medicines literalJSON) [] None = Some []
        \<and> parseOr (parse_reminders literalJSON) [] None = Some []
        \<and> parseOr (parse_user literalJSON) None None = Some None
        \<and> parseOr (parse_doctors literalJSON) [] None = Some []
        \<and> parseOr (parse_consultations literalJSON) [] None = Some []
        \<and> parseOr (parse_prescriptions literalJSON) [] None = Some []"
    by (simp add: getItem_themeStore p)
  note t1 = hydrate_resilience[of literalJSON themeStore "Some ''true''" None None None None None
      None None True "[]" "[]" "[]" None "[]" "[]" "[]" "''x''" "''theme''"]
  from t1 h have 1: "hydrate literalJSON themeStore
       = Some (themeStore\<lparr>state := (state themeStore)\<lparr>isDarkMode := True, searchHistory := [],
                  favorites := [], reminders := [], currentUser := None, doctors := [],
                  consultations := [], prescriptions := []\<rparr>\<rparr>)"
    by blast
  have c: "getItem (asyncStorage corruptStore) ''favorites'' = Some (Some ''{'')
        \<and> ''{'' \<noteq> [] \<and> parse_medicines literalJSON ''{'' = None"
    by (simp add: getItem_corruptStore literalJSON_def)
  note t2 = hydrate_resilience[of literalJSON corruptStore None None None None None None
      None None True "[]" "[]" "[]" None "[]" "[]" "[]" "''{''" "''theme''"]
  from t2 c have 2: "hydrate literalJSON corruptStore = Some corruptStore" by simp
  have u: "getItem (asyncStorage unparsableThemeStore) ''theme'' = Some (Some ''yes'')
        \<and> ''yes'' \<noteq> [] \<and> parse_bool literalJSON ''yes'' = None"
    by (simp add: getItem_def unparsableThemeStore_def literalJSON_def)
  note t3 = hydrate_resilience[of literalJSON unparsableThemeStore None None None None None None
      None None True "[]" "[]" "[]" None "[]" "[]" "[]" "''yes''" "''theme''"]
  from t3 u have 3: "hydrate literalJSON unparsableThemeStore = Some unparsableThemeStore"
    by simp
  from h have h': "getItem (asyncStorage themeStore) ''theme'' = Some (Some ''true'')
      \<and> getItem (asyncStorage themeStore) ''favorites'' = Some None"
    by simp
  from h' p 1 c 2 u 3 show ?thesis by simp
qed


text \<open>
  The claim as stated has a failure isolated per key. It is not: with a persisted theme
  \<^verbatim>\<open>true\<close> and persisted favorites that do not parse, the theme is readable and
  parses, yet \<open>hydrate\<close> leaves the state as it was and the theme is not loaded.
\<close>

theorem hydrate_resilience_counterexample:
  "getItem (asyncStorage corruptStore) ''theme'' = Some (Some ''true'')
   \<and> parse_bool literalJSON ''true'' = Some True
   \<and> getItem (asyncStorage corruptStore) ''favorites'' = Some (Some ''{'')
   \<and> parse_medicines literalJSON ''{'' = None
   \<and> hydrate literalJSON corruptStore = Some corruptStore
   \<and> isDarkMode (state corruptStore) = False"
proof -
  have "hydrate_try literalJSON (asyncStorage corruptStore) (state corruptStore) = None"
    by (simp add: hydrate_try_def getItem_corruptStore parseOr_def literalJSON_def)
  then have h: "hydrate literalJSON corruptStore = Some corruptStore" by (simp add: hydrate_def)
  have g: "getItem (asyncStorage corruptStore) ''theme'' = Some (Some ''true'')"
    "getItem (asyncStorage corruptStore) ''favorites'' = Some (Some ''{'')"
    by (simp_all add: getItem_corruptStore)
  have p: "parse_bool literalJSON ''true'' = Some True" "parse_medicines literalJSON ''{'' = None"
    by (simp_all add: literalJSON_def)
  have d: "isDarkMode (state corruptStore) = False"
    by (simp add: corruptStore_def initialState_def)
  from h g p d show ?thesis by simp
qed

section \<open>Status updates are unguarded\<close>

lemma updateConsultationStatus_status:
  "statusOf (snd (updateConsultationStatus failure now ident' status db)) ident
     = (if failure = None \<and> ident' = ident \<and> col_consultations db ident \<noteq> None
        then Some status else statusOf db ident)"
  by (auto simp: updateConsultationStatus_def statusOf_def split: option.splits)

lemma cancelConsultation_snd:
  "snd (cancelConsultation failure now ident db)
     = snd (updateConsultationStatus failure now ident Cancelled db)"
  by (simp add: cancelConsultation_def split: prod.splits sum.splits)

lemma statusOp_terminal:
  assumes "statusOf db ident = Some s" "terminal s" "\<not> reopens ident op"
  shows "\<exists>s'. statusOf (statusOp db op) ident = Some s' \<and> terminal s'"
proof (cases op)
  case (UpdateStatus failure now ident' status)
  with assms(3) have "ident' = ident \<longrightarrow> terminal status"
    by (cases status) (simp_all add: terminal_def)
  with assms(1,2) UpdateStatus show ?thesis
    by (simp add: updateConsultationStatus_status)
next
  case (Cancel failure now ident')
  with assms(1,2) show ?thesis
    by (simp add: cancelConsultation_snd updateConsultationStatus_status terminal_def)
qed

lemma statusOps_terminal:
  assumes "statusOf db ident = Some s" "terminal s" "\<forall>op\<in>set ops. \<not> reopens ident op"
  shows "\<exists>s'. statusOf (foldl statusOp db ops) ident = Some s' \<and> terminal s'"
  using assms
proof (induction ops arbitrary: db s)
  case Nil
  then show ?case by simp
next
  case (Cons op ops)
  from Cons.prems have "\<not> reopens ident op" by simp
  from statusOp_terminal[OF Cons.prems(1,2) this] obtain s' where
    s': "statusOf (statusOp db op) ident = Some s'" "terminal s'" by blast
  from Cons.prems(3) have "\<forall>op\<in>set ops. \<not> reopens ident op" by simp
  from Cons.IH[OF s' this] show ?case by simp
qed

lemma statusOf_cancelledDb: "statusOf cancelledDb ''c1'' = Some Cancelled"
  by (simp add: statusOf_def cancelledDb_def cancelledConsultation_def)

text \<open>
  Claim C8, amended. \<open>updateConsultationStatus\<close> writes the status it is given without
  looking at the current one, and \<open>cancelConsultation\<close> writes \<^verbatim>\<open>cancelled\<close>. A
  consultation that is cancelled or completed stays cancelled or completed, and so is
  never scheduled or ongoing, through every sequence of these operations in which no
  \<open>updateConsultationStatus\<close> asks for \<^verbatim>\<open>scheduled\<close> or \<^verbatim>\<open>ongoing\<close> for it.
\<close>

theorem status_terminal:
  "(statusOf db ident = Some s \<and> terminal s \<and> (\<forall>op\<in>set ops. \<not> reopens ident op) \<longrightarrow>
      (\<exists>s'. statusOf (foldl statusOp db ops) ident = Some s' \<and> terminal s'
            \<and> s' \<noteq> Scheduled \<and> s' \<noteq> Ongoing))
   \<and> (fst (cancelConsultation failure now ident db) = Inr () \<longrightarrow>
        statusOf (snd (cancelConsultation failure now ident db)) ident = Some Cancelled)
   \<and> (fst (updateConsultationStatus failure now ident status db) = Inr () \<longrightarrow>
        statusOf (snd (updateConsultationStatus failure now ident status db)) ident = Some status)"
proof (intro conjI impI)
  assume "statusOf db ident = Some s \<and> terminal s \<and> (\<forall>op\<in>set ops. \<not> reopens ident op)"
  then obtain s' where "statusOf (foldl statusOp db ops) ident = Some s'" "terminal s'"
    using statusOps_terminal[of db ident s ops] by blast
  then show "\<exists>s'. statusOf (foldl statusOp db ops) ident = Some s' \<and> terminal s'
            \<and> s' \<noteq> Scheduled \<and> s' \<noteq> Ongoing"
    by (auto simp: terminal_def)
next
  assume "fst (cancelConsultation failure now ident db) = Inr ()"
  then show "statusOf (snd (cancelConsultation failure now ident db)) ident = Some Cancelled"
    by (auto simp: cancelConsultation_def updateConsultationStatus_def statusOf_def
          split: option.splits)
next
  assume "fst (updateConsultationStatus failure now ident status db) = Inr ()"
  then show "statusOf (snd (updateConsultationStatus failure now ident status db)) ident = Some status"
    by (auto simp: updateConsultationStatus_def statusOf_def split: option.splits)
qed

theorem status_terminal_witness:
  "statusOf cancelledDb ''c1'' = Some Cancelled
   \<and> terminal Cancelled
   \<and> \<not> reopens ''c1'' (UpdateStatus None 1764300000002 ''c1'' Completed)
   \<and> \<not> reopens ''c1'' (Cancel None 1764300000003 ''c1'')
   \<and> statusOf (foldl statusOp cancelledDb
         [UpdateStatus None 1764300000002 ''c1'' Completed, Cancel None 1764300000003 ''c1''])
         ''c1'' = Some Cancelled
   \<and> fst (cancelConsultation None 1764300000003 ''c1'' cancelledDb) = Inr ()
   \<and> fst (updateConsultationStatus None 1764300000002 ''c1'' Completed cancelledDb) = Inr ()
   \<and> statusOf (snd (updateConsultationStatus None 1764300000002 ''c1'' Completed cancelledDb))
        ''c1'' = Some Completed"
proof -
  let ?ops = "[UpdateStatus None 1764300000002 ''c1'' Completed, Cancel None 1764300000003 ''c1'']"
  have h: "statusOf cancelledDb ''c1'' = Some Cancelled \<and> terminal Cancelled
           \<and> (\<forall>op\<in>set ?ops. \<not> reopens ''c1'' op)"
    by (simp add: statusOf_cancelledDb terminal_def)
  have e: "statusOf (foldl statusOp cancelledDb ?ops) ''c1'' = Some Cancelled"
    by (simp add: statusOf_def cancelledDb_def cancelledConsultation_def
          updateConsultationStatus_def cancelConsultation_def)
  have c: "fst (cancelConsultation None 1764300000003 ''c1'' cancelledDb) = Inr ()"
    by (simp add: cancelledDb_def cancelConsultation_def updateConsultationStatus_def)
  have u: "fst (updateConsultationStatus None 1764300000002 ''c1'' Completed cancelledDb) = Inr ()"
    by (simp add: cancelledDb_def updateConsultationStatus_def)
  note t = status_terminal[of cancelledDb "''c1''" Cancelled ?ops None 1764300000002 Completed]
  from t u have 1: "statusOf (snd (updateConsultationStatus None 1764300000002 ''c1'' Completed
      cancelledDb)) ''c1'' = Some Completed"
    by blast
  from t h obtain s' where "statusOf (foldl statusOp cancelledDb ?ops) ''c1'' = Some s'"
    "terminal s'" by blast
  with h e c u 1 show ?thesis by simp
qed

text \<open>
  The claim as stated lets \<open>updateConsultationStatus\<close> take any status value. With the
  value \<^verbatim>\<open>scheduled\<close> it succeeds on a cancelled consultation, which is scheduled
  afterwards.
\<close>

theorem status_terminal_counterexample:
  "statusOf cancelledDb ''c1'' = Some Cancelled
   \<and> fst (updateConsultationStatus None 1764300000002 ''c1'' Scheduled cancelledDb) = Inr ()
   \<and> statusOf (snd (updateConsultationStatus None 1764300000002 ''c1'' Scheduled cancelledDb)) ''c1''
       = Some Scheduled"
  by (simp add: statusOf_def cancelledDb_def cancelledConsultation_def updateConsultationStatus_def)

section \<open>The reminder\<close>

lemma hour_back:
  fixes l a r q m :: int
  assumes "l = a * 86400000 + r" "r = q * 3600000 + m"
  shows "a * 86400000 + (q - 1) * 3600000 + m = l - 3600000"
  using assms by (simp add: algebra_simps)

lemma setHours_previous_hour:
  "setHours tz (getHours tz t - 1) t = UTC tz (LocalTime tz t - 3600000)"
proof -
  let ?l = "LocalTime tz t"
  have m: "(?l mod 86400000) mod 3600000 = ?l mod 3600000"
    by (rule mod_mod_cancel) simp
  have e1: "?l = ?l div 86400000 * 86400000 + ?l mod 86400000"
    by (rule div_mult_mod_eq[symmetric])
  have "?l mod 86400000
      = (?l mod 86400000) div 3600000 * 3600000 + (?l mod 86400000) mod 3600000"
    by (rule div_mult_mod_eq[symmetric])
  then have e2: "?l mod 86400000 = (?l mod 86400000) div 3600000 * 3600000 + ?l mod 3600000"
    by (simp only: m)
  from hour_back[OF e1 e2] show ?thesis
    by (simp only: setHours_def getHours_def Let_def)
qed






text \<open>
  Across a change of the clock the hour that \<^verbatim>\<open>setHours\<close> takes off the local reading
  is not an hour of time. For the consultation at 01:30 after the clock of New York went
  back, the fire time is two hours before the scheduled time; at 05:00 UTC, an hour and
  a half before the consultation, no reminder is scheduled.
\<close>

lemma reminder_across_clock_change:
  "\<not> steadyClock newYorkZone (c_scheduledTime nightConsultation)
   \<and> setHours newYorkZone (getHours newYorkZone (c_scheduledTime nightConsultation) - 1)
        (c_scheduledTime nightConsultation) = c_scheduledTime nightConsultation - 7200000
   \<and> c_scheduledTime nightConsultation - 3600000 > 1762059600000
   \<and> scheduleConsultationReminder newYorkZone 1762059600000 nightConsultation [] = []"
proof -
  have t: "c_scheduledTime nightConsultation = 1762065000000"
    by (simp add: nightConsultation_def)
  have n: "\<not> steadyClock newYorkZone 1762065000000"
    by (simp add: steadyClock_def newYorkZone_def LocalTime_def)
  have h: "setHours newYorkZone (getHours newYorkZone 1762065000000 - 1) 1762065000000
      = 1762065000000 - 7200000"
    by (simp add: setHours_previous_hour UTC_def LocalTime_def newYorkZone_def)
  have "scheduleConsultationReminder newYorkZone 1762059600000 nightConsultation [] = []"
    by (simp add: scheduleConsultationReminder_def Let_def t h)
  with t n h show ?thesis by simp
qed

end
